theory Spec2Isabelle
  imports Complex_Main
begin

section \<open>Backend (Go): decoded JSON values, rows and frames\<close>

text \<open>
  The backend decodes the remote response with \<^verbatim>\<open>json.Unmarshal\<close> into
  \<^verbatim>\<open>[]map[string]interface{}\<close>. The dynamic type of a decoded value is one of
  \<^verbatim>\<open>nil\<close>, \<^verbatim>\<open>float64\<close>, \<^verbatim>\<open>string\<close>, \<^verbatim>\<open>bool\<close>,
  \<^verbatim>\<open>[]interface{}\<close> and \<^verbatim>\<open>map[string]interface{}\<close>. A JSON number
  decodes to a finite \<^verbatim>\<open>float64\<close>; the code only stores and copies these numbers,
  so they are carried as reals.
\<close>

type_synonym float64 = real

datatype jvalue =
    JNull
  | JFloat float64
  | JString string
  | JBool bool
  | JArray "jvalue list"
  | JObject "(string \<times> jvalue) list"

text \<open>A row is a Go map from column name to decoded value.\<close>

type_synonym row = "string \<rightharpoonup> jvalue"

text \<open>
  \<^verbatim>\<open>result[col]\<close>: indexing a Go map with a key it does not hold gives the zero value
  of the element type, the \<^verbatim>\<open>nil\<close> interface, which is also what a JSON
  \<^verbatim>\<open>null\<close> decodes to.
\<close>

definition index :: "row \<Rightarrow> string \<Rightarrow> jvalue" where
  "index result col = (case result col of None \<Rightarrow> JNull | Some v \<Rightarrow> v)"

text \<open>
  A \<^verbatim>\<open>time.Time\<close> as its civil fields and the offset of its zone in seconds east of
  UTC. \<^verbatim>\<open>time.Time{}\<close> is January 1 of year 1, 00:00:00 UTC.
\<close>

record go_time =
  year :: int
  month :: int
  day :: int
  hour :: int
  minute :: int
  second :: int
  nsec :: int
  zoneOffset :: int

definition zero_time :: go_time where
  "zero_time = \<lparr>year = 1, month = 1, day = 1, hour = 0, minute = 0, second = 0,
                 nsec = 0, zoneOffset = 0\<rparr>"

text \<open>
  The standard library functions the frame builder calls are parameters of the model:
  \<^verbatim>\<open>time.Parse(layout, value)\<close>, whose error result is \<open>None\<close>, and
  \<^verbatim>\<open>fmt.Sprintf("%v", val)\<close>.
\<close>

type_synonym time_Parse = "string \<Rightarrow> string \<Rightarrow> go_time option"
type_synonym Sprintf_v = "jvalue \<Rightarrow> string"

definition ocientTimestampFormat :: string where
  "ocientTimestampFormat = ''2006-01-02 15:04:05.999999999''"

definition RFC3339 :: string where
  "RFC3339 = ''2006-01-02T15:04:05Z07:00''"

text \<open>The typed slices held in \<^verbatim>\<open>columnValues\<close> and in a field of the frame.\<close>

datatype column_values =
    Float64s "float64 list"
  | Strings "string list"
  | Bools "bool list"
  | Times "go_time list"

record field =
  Name :: string
  Values :: column_values

record frame =
  FrameName :: string
  Fields :: "field list"

definition NewFrame :: "string \<Rightarrow> frame" where
  "NewFrame n = \<lparr>FrameName = n, Fields = []\<rparr>"

definition NewField :: "string \<Rightarrow> column_values \<Rightarrow> field" where
  "NewField n vs = \<lparr>Name = n, Values = vs\<rparr>"

text \<open>The length of a field's vector.\<close>

fun Len :: "column_values \<Rightarrow> nat" where
  "Len (Float64s xs) = length xs"
| "Len (Strings xs) = length xs"
| "Len (Bools xs) = length xs"
| "Len (Times xs) = length xs"

text \<open>
  A failed type assertion \<^verbatim>\<open>columnValues[col].([]T)\<close> panics. The function has no
  other way to fail: both of its \<^verbatim>\<open>return\<close> statements return a \<^verbatim>\<open>nil\<close> error.
\<close>

datatype go_error = Panic

subsection \<open>convertToDataFrames\<close>

text \<open>
  The first loop over the columns: the body for one column, giving the empty slice stored
  in \<^verbatim>\<open>columnValues[col]\<close> and the tag stored in \<^verbatim>\<open>columnTypes[col]\<close>.
  The three \<^verbatim>\<open>time.Parse\<close> attempts each end the iteration with \<^verbatim>\<open>continue\<close>;
  otherwise the type switch runs.
\<close>

definition detectColumn :: "time_Parse \<Rightarrow> jvalue \<Rightarrow> column_values \<times> string" where
  "detectColumn parse valueType =
     (let timestamp =
        (case valueType of
           JString strVal \<Rightarrow>
             if parse ocientTimestampFormat strVal \<noteq> None then True
             else if parse RFC3339 strVal \<noteq> None then True
             else if parse ''2006-01-02 15:04:05'' strVal \<noteq> None then True
             else False
         | _ \<Rightarrow> False)
      in if timestamp then (Times [], ''timestamp'')
         else (case valueType of
                 JFloat _ \<Rightarrow> (Float64s [], ''float64'')
               | JString _ \<Rightarrow> (Strings [], ''string'')
               | JBool _ \<Rightarrow> (Bools [], ''bool'')
               | _ \<Rightarrow> (Strings [], ''string'')))"

type_synonym columnValues = "string \<rightharpoonup> column_values"
type_synonym columnTypes = "string \<rightharpoonup> string"

fun detectColumns ::
  "time_Parse \<Rightarrow> row \<Rightarrow> string list \<Rightarrow> columnValues \<times> columnTypes \<Rightarrow> columnValues \<times> columnTypes"
where
  "detectColumns parse first [] (cv, ct) = (cv, ct)"
| "detectColumns parse first (col # cols) (cv, ct) =
     (let (values, ty) = detectColumn parse (index first col)
      in detectColumns parse first cols (cv(col \<mapsto> values), ct(col \<mapsto> ty)))"

text \<open>
  \<^verbatim>\<open>columnTypes[col]\<close>: a missing key gives the empty string, which no case of the
  switches matches.
\<close>

definition typeOf :: "columnTypes \<Rightarrow> string \<Rightarrow> string" where
  "typeOf ct col = (case ct col of None \<Rightarrow> [] | Some ty \<Rightarrow> ty)"

text \<open>The timestamp case of the fill loop, for one cell.\<close>

definition parseCell :: "time_Parse \<Rightarrow> jvalue \<Rightarrow> go_time" where
  "parseCell parse val =
     (case val of
        JString strVal \<Rightarrow>
          (case parse ocientTimestampFormat strVal of
             Some t \<Rightarrow> t
           | None \<Rightarrow>
               (case parse RFC3339 strVal of
                  Some t \<Rightarrow> t
                | None \<Rightarrow>
                    (case parse ''2006-01-02 15:04:05'' strVal of
                       Some t \<Rightarrow> t
                     | None \<Rightarrow> zero_time)))
      | _ \<Rightarrow> zero_time)"

text \<open>The body of the inner fill loop: one cell of one row appended to its column.\<close>

definition fillCell ::
  "time_Parse \<Rightarrow> Sprintf_v \<Rightarrow> columnTypes \<Rightarrow> row \<Rightarrow> string \<Rightarrow> columnValues \<Rightarrow> go_error + columnValues"
where
  "fillCell parse sprintf ct result col cv =
     (let val = index result col; ty = typeOf ct col in
      if ty = ''float64'' then
        (case cv col of
           Some (Float64s values) \<Rightarrow>
             Inr (cv(col \<mapsto> Float64s (values @ [case val of JFloat v \<Rightarrow> v | _ \<Rightarrow> 0])))
         | _ \<Rightarrow> Inl Panic)
      else if ty = ''string'' then
        (case cv col of
           Some (Strings values) \<Rightarrow>
             Inr (cv(col \<mapsto> Strings (values @ [case val of JString v \<Rightarrow> v | _ \<Rightarrow> sprintf val])))
         | _ \<Rightarrow> Inl Panic)
      else if ty = ''bool'' then
        (case cv col of
           Some (Bools values) \<Rightarrow>
             Inr (cv(col \<mapsto> Bools (values @ [case val of JBool v \<Rightarrow> v | _ \<Rightarrow> False])))
         | _ \<Rightarrow> Inl Panic)
      else if ty = ''timestamp'' then
        (case cv col of
           Some (Times values) \<Rightarrow> Inr (cv(col \<mapsto> Times (values @ [parseCell parse val])))
         | _ \<Rightarrow> Inl Panic)
      else Inr cv)"

fun fillRow ::
  "time_Parse \<Rightarrow> Sprintf_v \<Rightarrow> columnTypes \<Rightarrow> row \<Rightarrow> string list \<Rightarrow> columnValues \<Rightarrow> go_error + columnValues"
where
  "fillRow parse sprintf ct result [] cv = Inr cv"
| "fillRow parse sprintf ct result (col # cols) cv =
     (case fillCell parse sprintf ct result col cv of
        Inl e \<Rightarrow> Inl e
      | Inr cv' \<Rightarrow> fillRow parse sprintf ct result cols cv')"

fun fillRows ::
  "time_Parse \<Rightarrow> Sprintf_v \<Rightarrow> columnTypes \<Rightarrow> string list \<Rightarrow> row list \<Rightarrow> columnValues \<Rightarrow> go_error + columnValues"
where
  "fillRows parse sprintf ct columns [] cv = Inr cv"
| "fillRows parse sprintf ct columns (result # results) cv =
     (case fillRow parse sprintf ct result columns cv of
        Inl e \<Rightarrow> Inl e
      | Inr cv' \<Rightarrow> fillRows parse sprintf ct columns results cv')"

text \<open>The last loop: one field appended to the frame per column whose tag is known.\<close>

fun addFields ::
  "columnTypes \<Rightarrow> columnValues \<Rightarrow> string list \<Rightarrow> field list \<Rightarrow> go_error + field list"
where
  "addFields ct cv [] fs = Inr fs"
| "addFields ct cv (col # cols) fs =
     (let ty = typeOf ct col in
      if ty = ''float64'' then
        (case cv col of
           Some (Float64s values) \<Rightarrow> addFields ct cv cols (fs @ [NewField col (Float64s values)])
         | _ \<Rightarrow> Inl Panic)
      else if ty = ''string'' then
        (case cv col of
           Some (Strings values) \<Rightarrow> addFields ct cv cols (fs @ [NewField col (Strings values)])
         | _ \<Rightarrow> Inl Panic)
      else if ty = ''bool'' then
        (case cv col of
           Some (Bools values) \<Rightarrow> addFields ct cv cols (fs @ [NewField col (Bools values)])
         | _ \<Rightarrow> Inl Panic)
      else if ty = ''timestamp'' then
        (case cv col of
           Some (Times values) \<Rightarrow> addFields ct cv cols (fs @ [NewField col (Times values)])
         | _ \<Rightarrow> Inl Panic)
      else addFields ct cv cols fs)"

text \<open>
  The order in which \<^verbatim>\<open>for k := range results[0]\<close> visits the keys of the first row is
  chosen by the Go runtime; it is the parameter \<open>rangeKeys\<close>. Every such order lists each key
  of the map once.
\<close>

definition range_order :: "(row \<Rightarrow> string list) \<Rightarrow> row \<Rightarrow> bool" where
  "range_order rangeKeys m = (distinct (rangeKeys m) \<and> set (rangeKeys m) = dom m)"

definition convertToDataFrames ::
  "time_Parse \<Rightarrow> Sprintf_v \<Rightarrow> (row \<Rightarrow> string list) \<Rightarrow> row list \<Rightarrow> go_error + frame"
where
  "convertToDataFrames parse sprintf rangeKeys results =
     (case results of
        [] \<Rightarrow> Inr (NewFrame ''response'')
      | first # _ \<Rightarrow>
          (let frame = NewFrame ''response'';
               columns = rangeKeys first;
               (cv, ct) = detectColumns parse first columns (Map.empty, Map.empty)
           in case fillRows parse sprintf ct columns results cv of
                Inl e \<Rightarrow> Inl e
              | Inr cv' \<Rightarrow>
                  (case addFields ct cv' columns (Fields frame) of
                     Inl e \<Rightarrow> Inl e
                   | Inr fs \<Rightarrow> Inr (frame\<lparr>Fields := fs\<rparr>))))"

subsection \<open>The design's description of the frame builder\<close>

text \<open>
  The design describes the builder with a column type per column, an ordered first-match
  chain of timestamp formats, and a coercion of every cell to the type of its column.
  These definitions follow that description; the theorems below relate them to
  \<open>convertToDataFrames\<close>.
\<close>

datatype ColumnType = Float | Text | Boolean | Timestamp

definition timestampLayouts :: "string list" where
  "timestampLayouts =
     [''2006-01-02 15:04:05.999999999'', ''2006-01-02T15:04:05Z07:00'', ''2006-01-02 15:04:05'']"

fun firstMatch :: "time_Parse \<Rightarrow> string list \<Rightarrow> string \<Rightarrow> go_time option" where
  "firstMatch parse [] s = None"
| "firstMatch parse (layout # layouts) s =
     (case parse layout s of Some t \<Rightarrow> Some t | None \<Rightarrow> firstMatch parse layouts s)"

definition normalizeTimestamp :: "time_Parse \<Rightarrow> string \<Rightarrow> go_time option" where
  "normalizeTimestamp parse s = firstMatch parse timestampLayouts s"

definition matchesTimestamp :: "time_Parse \<Rightarrow> jvalue \<Rightarrow> bool" where
  "matchesTimestamp parse v =
     (case v of
        JString s \<Rightarrow> list_ex (\<lambda>layout. parse layout s \<noteq> None) timestampLayouts
      | _ \<Rightarrow> False)"

definition inferType :: "time_Parse \<Rightarrow> jvalue \<Rightarrow> ColumnType" where
  "inferType parse v =
     (if matchesTimestamp parse v then Timestamp
      else (case v of JFloat _ \<Rightarrow> Float | JBool _ \<Rightarrow> Boolean | _ \<Rightarrow> Text))"

text \<open>A cell of a typed column, and the columns as lists of cells.\<close>

datatype cell = FloatCell float64 | TextCell string | BooleanCell bool | TimestampCell go_time

fun cells :: "column_values \<Rightarrow> cell list" where
  "cells (Float64s xs) = map FloatCell xs"
| "cells (Strings xs) = map TextCell xs"
| "cells (Bools xs) = map BooleanCell xs"
| "cells (Times xs) = map TimestampCell xs"

fun columnType :: "column_values \<Rightarrow> ColumnType" where
  "columnType (Float64s xs) = Float"
| "columnType (Strings xs) = Text"
| "columnType (Bools xs) = Boolean"
| "columnType (Times xs) = Timestamp"

fun coerce :: "time_Parse \<Rightarrow> Sprintf_v \<Rightarrow> ColumnType \<Rightarrow> jvalue \<Rightarrow> cell" where
  "coerce parse sprintf Float v = FloatCell (case v of JFloat x \<Rightarrow> x | _ \<Rightarrow> 0)"
| "coerce parse sprintf Text v = TextCell (case v of JString s \<Rightarrow> s | _ \<Rightarrow> sprintf v)"
| "coerce parse sprintf Boolean v = BooleanCell (case v of JBool b \<Rightarrow> b | _ \<Rightarrow> False)"
| "coerce parse sprintf Timestamp v =
     TimestampCell
       (case v of
          JString s \<Rightarrow> (case normalizeTimestamp parse s of Some t \<Rightarrow> t | None \<Rightarrow> zero_time)
        | _ \<Rightarrow> zero_time)"

text \<open>The typed column holding the coerced cells of a list of values.\<close>

fun coerceColumn :: "time_Parse \<Rightarrow> Sprintf_v \<Rightarrow> ColumnType \<Rightarrow> jvalue list \<Rightarrow> column_values" where
  "coerceColumn parse sprintf Float vs =
     Float64s (map (\<lambda>v. case v of JFloat x \<Rightarrow> x | _ \<Rightarrow> 0) vs)"
| "coerceColumn parse sprintf Text vs =
     Strings (map (\<lambda>v. case v of JString s \<Rightarrow> s | _ \<Rightarrow> sprintf v) vs)"
| "coerceColumn parse sprintf Boolean vs =
     Bools (map (\<lambda>v. case v of JBool b \<Rightarrow> b | _ \<Rightarrow> False) vs)"
| "coerceColumn parse sprintf Timestamp vs =
     Times (map (\<lambda>v. case v of
                        JString s \<Rightarrow>
                          (case normalizeTimestamp parse s of Some t \<Rightarrow> t | None \<Rightarrow> zero_time)
                      | _ \<Rightarrow> zero_time) vs)"

fun tag :: "ColumnType \<Rightarrow> string" where
  "tag Float = ''float64''"
| "tag Text = ''string''"
| "tag Boolean = ''bool''"
| "tag Timestamp = ''timestamp''"

text \<open>The frame the design describes for a non-empty RowSet and a column order.\<close>

definition builtFrame :: "time_Parse \<Rightarrow> Sprintf_v \<Rightarrow> string list \<Rightarrow> row list \<Rightarrow> frame" where
  "builtFrame parse sprintf columns results =
     \<lparr>FrameName = ''response'',
      Fields = map (\<lambda>col. NewField col
                      (coerceColumn parse sprintf (inferType parse (index (hd results) col))
                         (map (\<lambda>result. index result col) results)))
                 columns\<rparr>"

subsection \<open>executeQuery and query\<close>

text \<open>
  Decimal rendering of an integer, as the verb \<^verbatim>\<open>%d\<close> of \<^verbatim>\<open>fmt\<close> prints a Go
  \<^verbatim>\<open>int\<close> and as a JavaScript template literal prints an integral number.
\<close>

fun decimal_nat :: "nat \<Rightarrow> string" where
  "decimal_nat n =
     (if n < 10 then [char_of (48 + n)]
      else decimal_nat (n div 10) @ [char_of (48 + n mod 10)])"

declare decimal_nat.simps [simp del]

definition decimal :: "int \<Rightarrow> string" where
  "decimal i = (if i < 0 then CHR ''-'' # decimal_nat (nat (- i)) else decimal_nat (nat i))"

record OcientStatus =
  Reason :: string
  SQLState :: string
  VendorCode :: int

record CollectionResponse =
  QueryID :: string
  Status :: OcientStatus
  Data :: "row list"

text \<open>
  What happens to one statement between \<^verbatim>\<open>json.Marshal\<close> of the request and
  \<^verbatim>\<open>json.Unmarshal\<close> of the response body: the first step that fails, with the
  message of its error, or the decoded response. The remote system is a function from the
  statement to this outcome.
\<close>

datatype roundtrip =
    MarshalError string
  | NewRequestError string
  | DoError string
  | ReadAllError string
  | UnmarshalError string
  | Decoded CollectionResponse

text \<open>
  The three results of \<^verbatim>\<open>executeQuery\<close>: the rows (a \<^verbatim>\<open>nil\<close> slice is the empty
  list), the status pointer and the error, each \<open>None\<close> when \<^verbatim>\<open>nil\<close>.
\<close>

definition executeQuery ::
  "(string \<Rightarrow> roundtrip) \<Rightarrow> string \<Rightarrow> row list \<times> OcientStatus option \<times> string option"
where
  "executeQuery remote query =
     (case remote query of
        MarshalError e \<Rightarrow> ([], None, Some (''error marshaling query: '' @ e))
      | NewRequestError e \<Rightarrow> ([], None, Some (''error creating request: '' @ e))
      | DoError e \<Rightarrow> ([], None, Some (''error executing query: '' @ e))
      | ReadAllError e \<Rightarrow> ([], None, Some (''error reading response: '' @ e))
      | UnmarshalError e \<Rightarrow> ([], None, Some (''error parsing response: '' @ e))
      | Decoded response \<Rightarrow>
          if SQLState (Status response) \<noteq> ''00000'' then
            ([], Some (Status response),
             Some (''query error: '' @ Reason (Status response) @ '' (SQL state: '' @
                   SQLState (Status response) @ '', vendor code: '' @
                   decimal (VendorCode (Status response)) @ '')''))
          else (Data response, Some (Status response), None))"

datatype backend_Status = StatusBadRequest | StatusInternal

record DataResponse =
  Frames :: "frame list"
  Error :: "string option"
  ErrorStatus :: "backend_Status option"

definition ErrDataResponse :: "backend_Status \<Rightarrow> string \<Rightarrow> DataResponse" where
  "ErrDataResponse status message =
     \<lparr>Frames = [], Error = Some message, ErrorStatus = Some status\<rparr>"

record queryModel =
  QueryText :: string

text \<open>
  \<^verbatim>\<open>query\<close>. Its argument \<open>unmarshalled\<close> is the result of decoding the request's JSON
  into the query model: the message of the error, or the model.
\<close>

definition query ::
  "time_Parse \<Rightarrow> Sprintf_v \<Rightarrow> (row \<Rightarrow> string list) \<Rightarrow> (string \<Rightarrow> roundtrip) \<Rightarrow>
   string + queryModel \<Rightarrow> go_error + DataResponse"
where
  "query parse sprintf rangeKeys remote unmarshalled =
     (case unmarshalled of
        Inl e \<Rightarrow> Inr (ErrDataResponse StatusBadRequest (''json unmarshal: '' @ e))
      | Inr qm \<Rightarrow>
          if QueryText qm = [] then Inr (ErrDataResponse StatusBadRequest ''query text is empty'')
          else
            (case executeQuery remote (QueryText qm) of
               (results, status, Some err) \<Rightarrow>
                 (case status of
                    Some st \<Rightarrow>
                      Inr (ErrDataResponse StatusInternal
                             (''Query failed: '' @ Reason st @ '' (SQL state: '' @ SQLState st @
                              '', vendor code: '' @ decimal (VendorCode st) @ '')''))
                  | None \<Rightarrow>
                      Inr (ErrDataResponse StatusInternal (''query execution error: '' @ err)))
             | (results, status, None) \<Rightarrow>
                 (case convertToDataFrames parse sprintf rangeKeys results of
                    Inl p \<Rightarrow> Inl p
                  | Inr frame \<Rightarrow>
                      Inr \<lparr>Frames = [frame], Error = None, ErrorStatus = None\<rparr>)))"

subsection \<open>The standard library's time.Parse on the three layouts\<close>

text \<open>
  The general theorems below hold for every parser. To run the builder on concrete rows,
  this is a model of \<^verbatim>\<open>time.Parse\<close> of the Go standard library (package
  \<^verbatim>\<open>time\<close>, file \<^verbatim>\<open>format.go\<close>) for the three layouts the builder passes: the
  helpers \<^verbatim>\<open>isDigit\<close>, \<^verbatim>\<open>commaOrPeriod\<close>, \<^verbatim>\<open>cutspace\<close>, \<^verbatim>\<open>skip\<close>,
  \<^verbatim>\<open>getnum\<close>, \<^verbatim>\<open>atoi\<close>, \<^verbatim>\<open>parseNanoseconds\<close>, the cases of the parsing loop
  for the layout elements these layouts hold, and the final check of the day of the month.
  A parse error and an out-of-range field are both \<open>None\<close>. The builder passes no
  other layout, and the model answers \<open>None\<close> for any other.
\<close>

definition isDigit :: "string \<Rightarrow> nat \<Rightarrow> bool" where
  "isDigit s i = (i < length s \<and> 48 \<le> (of_char (s ! i) :: nat) \<and> (of_char (s ! i) :: nat) \<le> 57)"

definition digitVal :: "char \<Rightarrow> int" where
  "digitVal c = int (of_char c) - 48"

definition commaOrPeriod :: "char \<Rightarrow> bool" where
  "commaOrPeriod c = (c = CHR ''.'' \<or> c = CHR '','')"

definition cutspace :: "string \<Rightarrow> string" where
  "cutspace s = dropWhile (\<lambda>c. c = CHR '' '') s"

function skip :: "string \<Rightarrow> string \<Rightarrow> string option" where
  "skip value [] = Some value"
| "skip value (p # prefix) =
     (if p = CHR '' '' then
        (if value \<noteq> [] \<and> hd value \<noteq> CHR '' '' then None
         else skip (cutspace value) (cutspace (p # prefix)))
      else if value = [] \<or> hd value \<noteq> p then None
      else skip (tl value) prefix)"
  by pat_completeness auto
termination
  by (relation "measure (\<lambda>(value, prefix). length prefix)")
    (auto simp: cutspace_def intro: le_imp_less_Suc length_dropWhile_le)

definition getnum :: "string \<Rightarrow> bool \<Rightarrow> (int \<times> string) option" where
  "getnum s fixed =
     (if \<not> isDigit s 0 then None
      else if \<not> isDigit s 1 then (if fixed then None else Some (digitVal (s ! 0), drop 1 s))
      else Some (digitVal (s ! 0) * 10 + digitVal (s ! 1), drop 2 s))"

fun leadingInt :: "string \<Rightarrow> int \<Rightarrow> int \<times> string" where
  "leadingInt [] x = (x, [])"
| "leadingInt (c # s) x =
     (if isDigit [c] 0 then leadingInt s (x * 10 + digitVal c) else (x, c # s))"

definition atoi :: "string \<Rightarrow> int option" where
  "atoi s = (case leadingInt s 0 of (q, rem) \<Rightarrow> if rem \<noteq> [] then None else Some q)"

definition parseNanoseconds :: "string \<Rightarrow> nat \<Rightarrow> int option" where
  "parseNanoseconds value nbytes =
     (if \<not> commaOrPeriod (value ! 0) then None
      else let nbytes' = (if nbytes > 10 then 10 else nbytes);
               value' = (if nbytes > 10 then take 10 value else value)
           in (case atoi (take (nbytes' - 1) (drop 1 value')) of
                 None \<Rightarrow> None
               | Some ns \<Rightarrow> Some (ns * 10 ^ (10 - nbytes'))))"

text \<open>The layout elements of the three layouts.\<close>

datatype std =
    stdLongYear | stdZeroMonth | stdZeroDay | stdHour | stdZeroMinute | stdZeroSecond
  | stdFracSecond9 | stdISO8601ColonTZ

text \<open>
  The index after the run of digits that starts at index \<open>n\<close>: the loops that count the
  digits of a fractional second.
\<close>

definition digitsFrom :: "string \<Rightarrow> nat \<Rightarrow> nat" where
  "digitsFrom value n = n + length (takeWhile (\<lambda>c. isDigit [c] 0) (drop n value))"

text \<open>
  One case of the parsing loop. \<open>nxt\<close> is the element that follows in the layout, which
  the seconds case inspects when the value has a fractional second.
\<close>

fun parseStd :: "std \<Rightarrow> std option \<Rightarrow> go_time \<Rightarrow> string \<Rightarrow> (go_time \<times> string) option" where
  "parseStd stdLongYear nxt t value =
     (if length value < 4 \<or> \<not> isDigit value 0 then None
      else (case atoi (take 4 value) of
              None \<Rightarrow> None
            | Some y \<Rightarrow> Some (t\<lparr>year := y\<rparr>, drop 4 value)))"
| "parseStd stdZeroMonth nxt t value =
     (case getnum value True of
        None \<Rightarrow> None
      | Some (m, value') \<Rightarrow> if m \<le> 0 \<or> 12 < m then None else Some (t\<lparr>month := m\<rparr>, value'))"
| "parseStd stdZeroDay nxt t value =
     (case getnum value True of
        None \<Rightarrow> None
      | Some (d, value') \<Rightarrow> Some (t\<lparr>day := d\<rparr>, value'))"
| "parseStd stdHour nxt t value =
     (case getnum value False of
        None \<Rightarrow> None
      | Some (h, value') \<Rightarrow> if h < 0 \<or> 24 \<le> h then None else Some (t\<lparr>hour := h\<rparr>, value'))"
| "parseStd stdZeroMinute nxt t value =
     (case getnum value True of
        None \<Rightarrow> None
      | Some (m, value') \<Rightarrow> if m < 0 \<or> 60 \<le> m then None else Some (t\<lparr>minute := m\<rparr>, value'))"
| "parseStd stdZeroSecond nxt t value =
     (case getnum value True of
        None \<Rightarrow> None
      | Some (s, value') \<Rightarrow>
          if s < 0 \<or> 60 \<le> s then None
          else if length value' \<ge> 2 \<and> commaOrPeriod (value' ! 0) \<and> isDigit value' 1 then
            (if nxt = Some stdFracSecond9 then Some (t\<lparr>second := s\<rparr>, value')
             else let n = digitsFrom value' 2 in
               (case parseNanoseconds value' n of
                  None \<Rightarrow> None
                | Some ns \<Rightarrow> Some (t\<lparr>second := s, nsec := ns\<rparr>, drop n value')))
          else Some (t\<lparr>second := s\<rparr>, value'))"
| "parseStd stdFracSecond9 nxt t value =
     (if length value < 2 \<or> \<not> commaOrPeriod (value ! 0) \<or> \<not> isDigit value 1 then Some (t, value)
      else let n = digitsFrom value 1 in
        (case parseNanoseconds value n of
           None \<Rightarrow> None
         | Some ns \<Rightarrow> Some (t\<lparr>nsec := ns\<rparr>, drop n value)))"
| "parseStd stdISO8601ColonTZ nxt t value =
     (if length value \<ge> 1 \<and> value ! 0 = CHR ''Z'' then Some (t\<lparr>zoneOffset := 0\<rparr>, drop 1 value)
      else if length value < 6 then None
      else if value ! 3 \<noteq> CHR '':'' then None
      else (case getnum (take 2 (drop 1 value)) True of
              None \<Rightarrow> None
            | Some (hr, _) \<Rightarrow>
                (case getnum (take 2 (drop 4 value)) True of
                   None \<Rightarrow> None
                 | Some (mm, _) \<Rightarrow>
                     if hr > 24 \<or> mm > 60 then None
                     else if value ! 0 = CHR ''+'' then
                       Some (t\<lparr>zoneOffset := (hr * 60 + mm) * 60\<rparr>, drop 6 value)
                     else if value ! 0 = CHR ''-'' then
                       Some (t\<lparr>zoneOffset := - ((hr * 60 + mm) * 60)\<rparr>, drop 6 value)
                     else None)))"

fun parseChunks :: "(string \<times> std) list \<Rightarrow> string \<Rightarrow> go_time \<Rightarrow> string \<Rightarrow> go_time option" where
  "parseChunks [] suffix t value =
     (case skip value suffix of
        None \<Rightarrow> None
      | Some value' \<Rightarrow> if value' \<noteq> [] then None else Some t)"
| "parseChunks ((prefix, s) # rest) suffix t value =
     (case skip value prefix of
        None \<Rightarrow> None
      | Some value' \<Rightarrow>
          (case parseStd s (case rest of [] \<Rightarrow> None | (_, nxt) # _ \<Rightarrow> Some nxt) t value' of
             None \<Rightarrow> None
           | Some (t', value'') \<Rightarrow> parseChunks rest suffix t' value''))"

definition isLeap :: "int \<Rightarrow> bool" where
  "isLeap y = (y mod 4 = 0 \<and> (y mod 100 \<noteq> 0 \<or> y mod 400 = 0))"

definition daysIn :: "int \<Rightarrow> int \<Rightarrow> int" where
  "daysIn m y =
     (if m = 2 then (if isLeap y then 29 else 28)
      else if m = 4 \<or> m = 6 \<or> m = 9 \<or> m = 11 then 30 else 31)"

text \<open>
  The three layouts cut by \<^verbatim>\<open>nextStdChunk\<close>: each element with the literal text before
  it, and the literal text after the last element.
\<close>

definition nextStdChunks :: "string \<Rightarrow> ((string \<times> std) list \<times> string) option" where
  "nextStdChunks layout =
     (if layout = ocientTimestampFormat then
        Some ([([], stdLongYear), (''-'', stdZeroMonth), (''-'', stdZeroDay), ('' '', stdHour),
               ('':'', stdZeroMinute), ('':'', stdZeroSecond), ([], stdFracSecond9)], [])
      else if layout = RFC3339 then
        Some ([([], stdLongYear), (''-'', stdZeroMonth), (''-'', stdZeroDay), (''T'', stdHour),
               ('':'', stdZeroMinute), ('':'', stdZeroSecond), ([], stdISO8601ColonTZ)], [])
      else if layout = ''2006-01-02 15:04:05'' then
        Some ([([], stdLongYear), (''-'', stdZeroMonth), (''-'', stdZeroDay), ('' '', stdHour),
               ('':'', stdZeroMinute), ('':'', stdZeroSecond)], [])
      else None)"

definition go_time_Parse :: time_Parse where
  "go_time_Parse layout value =
     (case nextStdChunks layout of
        None \<Rightarrow> None
      | Some (chunks, suffix) \<Rightarrow>
          (case parseChunks chunks suffix
                  \<lparr>year = 0, month = - 1, day = - 1, hour = 0, minute = 0, second = 0,
                   nsec = 0, zoneOffset = 0\<rparr> value of
             None \<Rightarrow> None
           | Some t \<Rightarrow> if day t < 1 \<or> day t > daysIn (month t) (year t) then None else Some t))"

section \<open>Frontend (TypeScript): distinct-value browsing and the query builder\<close>

text \<open>
  The values a frame field delivers to the frontend. A JavaScript number is restricted to
  the integers: the counts, limits and offsets of the browsing protocol.
\<close>

datatype js_value = JSUndefined | JSNull | JSNumber int | JSString string | JSBoolean bool

text \<open>\<^verbatim>\<open>String(value)\<close>.\<close>

fun js_String :: "js_value \<Rightarrow> string" where
  "js_String JSUndefined = ''undefined''"
| "js_String JSNull = ''null''"
| "js_String (JSNumber n) = decimal n"
| "js_String (JSString s) = s"
| "js_String (JSBoolean b) = (if b then ''true'' else ''false'')"

record js_field =
  field_name :: string
  field_values :: "js_value list"

text \<open>\<^verbatim>\<open>frame.fields\<close> is \<open>None\<close> when the property is undefined.\<close>

record js_frame =
  frame_fields :: "js_field list option"

text \<open>
  The outcome of \<^verbatim>\<open>await firstValueFrom(this.query(...))\<close>: it throws, or it resolves
  to a response whose \<^verbatim>\<open>data\<close> is the list of frames (\<open>None\<close> when
  \<^verbatim>\<open>response?.data\<close> is undefined).
\<close>

datatype query_outcome = Throws | Resolves "js_frame list option"

record request =
  refId :: string
  queryText :: string

text \<open>\<^verbatim>\<open>values.get(0)\<close> is undefined on an empty vector.\<close>

definition get0 :: "js_value list \<Rightarrow> js_value" where
  "get0 vs = (case vs of [] \<Rightarrow> JSUndefined | v # _ \<Rightarrow> v)"

text \<open>The template literal of the count query.\<close>

definition countQueryText :: "string \<Rightarrow> string \<Rightarrow> string \<Rightarrow> string" where
  "countQueryText schema table column =
     ''SELECT COUNT(DISTINCT '' @ column @ '') AS value_count FROM '' @ schema @ ''.'' @ table @
     '' WHERE '' @ column @ '' IS NOT NULL''"

text \<open>
  \<^verbatim>\<open>getDistinctValueCount\<close>, returning its result and the requests it issued.
  A thrown error is caught and logged, and control reaches the final \<^verbatim>\<open>return 0\<close>.
\<close>

definition getDistinctValueCount ::
  "(request \<Rightarrow> query_outcome) \<Rightarrow> string \<Rightarrow> string \<Rightarrow> string \<Rightarrow> int \<times> request list"
where
  "getDistinctValueCount backend schema table column =
     (if schema = [] \<or> table = [] \<or> column = [] then (0, [])
      else
        let q = \<lparr>refId = ''distinct_count'', queryText = countQueryText schema table column\<rparr>
        in (case backend q of
              Throws \<Rightarrow> (0, [q])
            | Resolves None \<Rightarrow> (0, [q])
            | Resolves (Some []) \<Rightarrow> (0, [q])
            | Resolves (Some (frame # _)) \<Rightarrow>
                (case frame_fields frame of
                   None \<Rightarrow> (0, [q])
                 | Some [] \<Rightarrow> (0, [q])
                 | Some (f # _) \<Rightarrow>
                     (case get0 (field_values f) of
                        JSNumber countValue \<Rightarrow> (countValue, [q])
                      | _ \<Rightarrow> (0, [q])))))"

record options =
  opt_limit :: "int option"
  opt_offset :: "int option"
  opt_searchPattern :: "string option"

record page =
  "values" :: "string list"
  totalCount :: int
  hasMore :: bool

text \<open>
  \<^verbatim>\<open>options?.limit || 100\<close> and \<^verbatim>\<open>options?.offset || 0\<close>: the default replaces an
  absent options object, an absent property and the number 0.
\<close>

definition number_or :: "options option \<Rightarrow> (options \<Rightarrow> int option) \<Rightarrow> int \<Rightarrow> int" where
  "number_or opts prop dflt =
     (case opts of
        None \<Rightarrow> dflt
      | Some o' \<Rightarrow> (case prop o' of None \<Rightarrow> dflt | Some n \<Rightarrow> if n = 0 then dflt else n))"

definition string_or_empty :: "options option \<Rightarrow> (options \<Rightarrow> string option) \<Rightarrow> string" where
  "string_or_empty opts prop =
     (case opts of None \<Rightarrow> [] | Some o' \<Rightarrow> (case prop o' of None \<Rightarrow> [] | Some s \<Rightarrow> s))"

text \<open>The line break and the indentation inside the template literals of the value query.\<close>

definition newline_indent :: "nat \<Rightarrow> string" where
  "newline_indent n = CHR 0x0A # replicate n (CHR '' '')"

text \<open>
  The text of the value query: the first template literal, the search filter appended when
  the pattern is not empty, then the ordering and the page bounds.
\<close>

definition valueQueryText ::
  "string \<Rightarrow> string \<Rightarrow> string \<Rightarrow> string \<Rightarrow> int \<Rightarrow> int \<Rightarrow> string"
where
  "valueQueryText schema table column searchPattern limit offset =
     (let text0 = ''SELECT DISTINCT '' @ column @ '' '' @ newline_indent 21 @
                  ''FROM '' @ schema @ ''.'' @ table @ '' '' @ newline_indent 21 @
                  ''WHERE '' @ column @ '' IS NOT NULL'';
          text1 = (if searchPattern \<noteq> [] then
                     text0 @ '' AND LOWER(CAST('' @ column @ '' AS VARCHAR)) LIKE LOWER('' @
                     [CHR 0x27] @ ''%'' @ searchPattern @ ''%'' @ [CHR 0x27] @ '')''
                   else text0)
      in text1 @ '' ORDER BY '' @ column @ '' ASC '' @ newline_indent 18 @
         ''LIMIT '' @ decimal limit @ '' OFFSET '' @ decimal offset)"

text \<open>\<^verbatim>\<open>getDistinctColumnValues\<close>, returning its page and the requests it issued.\<close>

definition getDistinctColumnValues ::
  "(request \<Rightarrow> query_outcome) \<Rightarrow> string \<Rightarrow> string \<Rightarrow> string \<Rightarrow> options option \<Rightarrow>
   page \<times> request list"
where
  "getDistinctColumnValues backend schema table column opts =
     (if schema = [] \<or> table = [] \<or> column = [] then
        (\<lparr>values = [], totalCount = 0, hasMore = False\<rparr>, [])
      else
        let limit = number_or opts opt_limit 100;
            offset = number_or opts opt_offset 0;
            searchPattern = string_or_empty opts opt_searchPattern;
            (total, issued) = getDistinctValueCount backend schema table column;
            q = \<lparr>refId = ''distinct_values'',
                 queryText = valueQueryText schema table column searchPattern limit offset\<rparr>;
            fallback = (\<lparr>values = [], totalCount = total, hasMore = False\<rparr>, issued @ [q])
        in (case backend q of
              Throws \<Rightarrow> fallback
            | Resolves None \<Rightarrow> fallback
            | Resolves (Some []) \<Rightarrow> fallback
            | Resolves (Some (frame # _)) \<Rightarrow>
                (case frame_fields frame of
                   None \<Rightarrow> fallback
                 | Some [] \<Rightarrow> fallback
                 | Some (f # _) \<Rightarrow>
                     (let vals = map js_String (field_values f)
                      in (\<lparr>values = vals, totalCount = total,
                           hasMore = (offset + int (length vals) < total)\<rparr>,
                          issued @ [q])))))"

subsection \<open>buildQuery\<close>

record SelectedColumn =
  column_name :: string
  isTimeseriesColumn :: "bool option"

record WhereClause =
  clause_column :: string
  clause_operator :: string
  clause_value :: string

text \<open>\<^verbatim>\<open>Array.prototype.join\<close> on strings.\<close>

fun join :: "string \<Rightarrow> string list \<Rightarrow> string" where
  "join sep [] = []"
| "join sep [x] = x"
| "join sep (x # y # zs) = x @ sep @ join sep (y # zs)"

text \<open>Truthiness of an optional string: defined and not empty.\<close>

definition truthy :: "string option \<Rightarrow> bool" where
  "truthy x = (case x of None \<Rightarrow> False | Some s \<Rightarrow> s \<noteq> [])"

text \<open>
  \<^verbatim>\<open>buildQuery\<close>: the SQL text handed to \<^verbatim>\<open>onChange\<close> before the query runs, or
  \<open>None\<close> when schema or table is missing and nothing happens.
\<close>

definition buildQuery ::
  "string option \<Rightarrow> string option \<Rightarrow> SelectedColumn list \<Rightarrow> WhereClause list \<Rightarrow>
   string option \<Rightarrow> string option"
where
  "buildQuery schema table selectedColumns whereClauses timeseriesColumn =
     (case (schema, table, truthy schema \<and> truthy table) of
        (Some s, Some t, True) \<Rightarrow>
          let columnsStr = (if length selectedColumns > 0
                            then join '', '' (map column_name selectedColumns) else ''*'');
              sql = ''SELECT '' @ columnsStr @ '' FROM '' @ s @ ''.'' @ t
          in if length whereClauses > 0 \<or> truthy timeseriesColumn then
               let whereClauseStrings =
                     map (\<lambda>clause. clause_column clause @ '' '' @ clause_operator clause @
                                    '' '' @ [CHR 0x27] @ clause_value clause @ [CHR 0x27])
                       whereClauses;
                   whereClauseStrings' =
                     (case timeseriesColumn of
                        Some ts \<Rightarrow>
                          if ts \<noteq> [] then
                            whereClauseStrings @
                            [ts @ '' >= $__timeFrom() AND '' @ ts @ '' <= $__timeTo() ORDER BY '' @
                             ts @ '' ASC'']
                          else whereClauseStrings
                      | None \<Rightarrow> whereClauseStrings)
               in Some (sql @ '' WHERE '' @ join '' AND '' whereClauseStrings')
             else Some sql
      | _ \<Rightarrow> None)"

section \<open>Sample inputs\<close>

text \<open>
  Concrete rows, orders, remotes and backends on which the theorems are run. The second
  sample row lacks the key \<open>v\<close> and holds a boolean where the first row holds a
  timestamp text.
\<close>

definition sample_rows :: "row list" where
  "sample_rows =
     [[''ts'' \<mapsto> JString ''2024-01-15 10:30:00.123456789'', ''v'' \<mapsto> JFloat 42.5],
      [''ts'' \<mapsto> JBool True]]"

definition sample_keys :: "row \<Rightarrow> string list" where
  "sample_keys m = [''ts'', ''v'']"

definition sample_sprintf :: Sprintf_v where
  "sample_sprintf v =
     (case v of
        JNull \<Rightarrow> ''<nil>''
      | JBool b \<Rightarrow> (if b then ''true'' else ''false'')
      | _ \<Rightarrow> ''?'')"

definition failing_remote :: "string \<Rightarrow> roundtrip" where
  "failing_remote statement =
     Decoded \<lparr>QueryID = ''q-1'',
              Status = \<lparr>Reason = ''syntax error'', SQLState = ''42601'', VendorCode = - 300\<rparr>,
              Data = [[''x'' \<mapsto> JFloat 1]]\<rparr>"

subsection \<open>Requests and outcomes of the browsing protocol\<close>

text \<open>The two requests a browsing call issues.\<close>

definition countRequest :: "string \<Rightarrow> string \<Rightarrow> string \<Rightarrow> request" where
  "countRequest schema table column =
     \<lparr>refId = ''distinct_count'', queryText = countQueryText schema table column\<rparr>"

definition valueRequest :: "string \<Rightarrow> string \<Rightarrow> string \<Rightarrow> options option \<Rightarrow> request" where
  "valueRequest schema table column opts =
     \<lparr>refId = ''distinct_values'',
      queryText = valueQueryText schema table column (string_or_empty opts opt_searchPattern)
                    (number_or opts opt_limit 100) (number_or opts opt_offset 0)\<rparr>"

text \<open>The first field of the first frame of an outcome, when there is one.\<close>

definition firstField :: "query_outcome \<Rightarrow> js_field option" where
  "firstField out =
     (case out of
        Resolves (Some (frame # _)) \<Rightarrow>
          (case frame_fields frame of Some (f # _) \<Rightarrow> Some f | _ \<Rightarrow> None)
      | _ \<Rightarrow> None)"

definition isNumber :: "js_value \<Rightarrow> bool" where
  "isNumber v = (case v of JSNumber _ \<Rightarrow> True | _ \<Rightarrow> False)"

text \<open>The count query fails or its first cell is not a number.\<close>

definition countUnavailable :: "query_outcome \<Rightarrow> bool" where
  "countUnavailable out =
     (case firstField out of None \<Rightarrow> True | Some f \<Rightarrow> \<not> isNumber (get0 (field_values f)))"

text \<open>
  Frames as the backend sends them: a count, a column of values, and the frame without
  fields that \<open>convertToDataFrames\<close> builds from an empty RowSet.
\<close>

definition numberFrame :: "int \<Rightarrow> js_frame" where
  "numberFrame n =
     \<lparr>frame_fields = Some [\<lparr>field_name = ''value_count'', field_values = [JSNumber n]\<rparr>]\<rparr>"

definition columnFrame :: "string \<Rightarrow> js_value list \<Rightarrow> js_frame" where
  "columnFrame c vs = \<lparr>frame_fields = Some [\<lparr>field_name = c, field_values = vs\<rparr>]\<rparr>"

definition emptyFrame :: js_frame where
  "emptyFrame = \<lparr>frame_fields = Some []\<rparr>"

definition page_opts :: "int \<Rightarrow> int \<Rightarrow> string \<Rightarrow> options option" where
  "page_opts l off pat =
     Some \<lparr>opt_limit = Some l, opt_offset = Some off, opt_searchPattern = Some pat\<rparr>"

text \<open>
  A remote table \<open>s.t\<close> whose column \<open>c\<close> has 150 distinct values, none of which
  contains \<open>zzz\<close>: its answers to the count query, to the first two pages of 100, and to
  a search for \<open>zzz\<close>.
\<close>

definition table150 :: "request \<Rightarrow> query_outcome" where
  "table150 q =
     (if q = countRequest ''s'' ''t'' ''c'' then Resolves (Some [numberFrame 150])
      else if q = valueRequest ''s'' ''t'' ''c'' (page_opts 100 0 []) then
        Resolves (Some [columnFrame ''c'' (map (\<lambda>i. JSNumber (int i)) [0..<100])])
      else if q = valueRequest ''s'' ''t'' ''c'' (page_opts 100 100 []) then
        Resolves (Some [columnFrame ''c'' (map (\<lambda>i. JSNumber (int i)) [100..<150])])
      else if q = valueRequest ''s'' ''t'' ''c'' (page_opts 100 0 ''zzz'') then
        Resolves (Some [emptyFrame])
      else Throws)"

text \<open>A remote whose count query fails while its value query answers.\<close>

definition count_down :: "request \<Rightarrow> query_outcome" where
  "count_down q =
     (if refId q = ''distinct_count'' then Throws
      else Resolves (Some [columnFrame ''c'' [JSString ''a'', JSBoolean True]]))"

subsection \<open>The design's rendering of the builder's clauses\<close>

definition renderClause :: "WhereClause \<Rightarrow> string" where
  "renderClause clause =
     clause_column clause @ '' '' @ clause_operator clause @ '' '' @
     [CHR 0x27] @ clause_value clause @ [CHR 0x27]"

definition timeFilter :: "string \<Rightarrow> string" where
  "timeFilter ts =
     ts @ '' >= $__timeFrom() AND '' @ ts @ '' <= $__timeTo() ORDER BY '' @ ts @ '' ASC''"

section \<open>The frame builder refines its description\<close>

text \<open>
  The nested attempts of the classification loop and of the fill loop are the first-match
  chain over the three layouts.
\<close>

lemma normalizeTimestamp_chain:
  "normalizeTimestamp parse s =
     (case parse ocientTimestampFormat s of
        Some t \<Rightarrow> Some t
      | None \<Rightarrow>
          (case parse RFC3339 s of
             Some t \<Rightarrow> Some t
           | None \<Rightarrow> parse ''2006-01-02 15:04:05'' s))"
  by (simp add: normalizeTimestamp_def timestampLayouts_def ocientTimestampFormat_def
      RFC3339_def split: option.splits)

lemma matchesTimestamp_iff:
  "matchesTimestamp parse (JString s) \<longleftrightarrow> normalizeTimestamp parse s \<noteq> None"
  by (simp add: matchesTimestamp_def normalizeTimestamp_def timestampLayouts_def
      split: option.splits)

lemma parseCell_chain:
  "parseCell parse v =
     (case v of
        JString s \<Rightarrow> (case normalizeTimestamp parse s of Some t \<Rightarrow> t | None \<Rightarrow> zero_time)
      | _ \<Rightarrow> zero_time)"
  by (simp add: parseCell_def normalizeTimestamp_chain split: jvalue.splits option.splits)

lemma detectColumn_inferType:
  "detectColumn parse v =
     (coerceColumn parse sprintf (inferType parse v) [], tag (inferType parse v))"
proof (cases v)
  case (JString s)
  then show ?thesis
    by (simp add: detectColumn_def inferType_def matchesTimestamp_iff normalizeTimestamp_chain
        split: option.splits)
qed (simp_all add: detectColumn_def inferType_def matchesTimestamp_def)

text \<open>
  The three loops, each characterised by the state it leaves: the classification loop
  stores an empty typed slice and a tag per column; the fill loop appends one coerced cell
  per row to every column, which needs the columns to be distinct; the last loop builds one
  field per column. No type assertion fails on the way.
\<close>

lemma detectColumns_eq:
  "detectColumns parse first cols (cv, ct) =
     (\<lambda>c. if c \<in> set cols
          then Some (coerceColumn parse sprintf (inferType parse (index first c)) [])
          else cv c,
      \<lambda>c. if c \<in> set cols then Some (tag (inferType parse (index first c))) else ct c)"
proof (induction cols arbitrary: cv ct)
  case Nil
  show ?case by simp
next
  case (Cons col cols)
  show ?case
    by (simp add: detectColumn_inferType [where sprintf = sprintf] Cons.IH fun_eq_iff)
qed

lemma fillCell_eq:
  assumes "ct col = Some (tag ty)" and "cv col = Some (coerceColumn parse sprintf ty vs)"
  shows "fillCell parse sprintf ct result col cv =
           Inr (cv(col \<mapsto> coerceColumn parse sprintf ty (vs @ [index result col])))"
  using assms
  by (cases ty) (simp_all add: fillCell_def Let_def typeOf_def parseCell_chain)

lemma fillRow_eq:
  assumes "distinct cols"
    and "\<And>c. c \<in> set cols \<Longrightarrow> ct c = Some (tag (ty c))"
    and "\<And>c. c \<in> set cols \<Longrightarrow> cv c = Some (coerceColumn parse sprintf (ty c) (vs c))"
  shows "fillRow parse sprintf ct result cols cv =
           Inr (\<lambda>c. if c \<in> set cols
                     then Some (coerceColumn parse sprintf (ty c) (vs c @ [index result c]))
                     else cv c)"
  using assms
proof (induction cols arbitrary: cv)
  case Nil
  show ?case by simp
next
  case (Cons col cols)
  have step: "fillCell parse sprintf ct result col cv =
      Inr (cv(col \<mapsto> coerceColumn parse sprintf (ty col) (vs col @ [index result col])))"
    by (rule fillCell_eq) (simp_all add: Cons.prems)
  have rest: "fillRow parse sprintf ct result cols
        (cv(col \<mapsto> coerceColumn parse sprintf (ty col) (vs col @ [index result col]))) =
      Inr (\<lambda>c. if c \<in> set cols
                then Some (coerceColumn parse sprintf (ty c) (vs c @ [index result c]))
                else (cv(col \<mapsto> coerceColumn parse sprintf (ty col)
                                   (vs col @ [index result col]))) c)"
    using Cons.prems by (intro Cons.IH) auto
  show ?case
    using Cons.prems(1) by (auto simp: step rest fun_eq_iff)
qed

lemma fillRows_eq:
  assumes "distinct cols"
    and "\<And>c. c \<in> set cols \<Longrightarrow> ct c = Some (tag (ty c))"
    and "\<And>c. c \<in> set cols \<Longrightarrow> cv c = Some (coerceColumn parse sprintf (ty c) (vs c))"
  shows "fillRows parse sprintf ct cols results cv =
           Inr (\<lambda>c. if c \<in> set cols
                     then Some (coerceColumn parse sprintf (ty c)
                                  (vs c @ map (\<lambda>result. index result c) results))
                     else cv c)"
  using assms(3)
proof (induction results arbitrary: cv vs)
  case Nil
  then show ?case by (auto simp: fun_eq_iff)
next
  case (Cons result results)
  let ?cv = "\<lambda>c. if c \<in> set cols
                then Some (coerceColumn parse sprintf (ty c) (vs c @ [index result c]))
                else cv c"
  have row: "fillRow parse sprintf ct result cols cv = Inr ?cv"
    by (rule fillRow_eq [OF assms(1) assms(2) Cons.prems])
  have "fillRows parse sprintf ct cols results ?cv =
      Inr (\<lambda>c. if c \<in> set cols
                then Some (coerceColumn parse sprintf (ty c)
                             ((vs c @ [index result c]) @ map (\<lambda>result. index result c) results))
                else ?cv c)"
    by (rule Cons.IH) simp
  then show ?case
    by (simp add: row fun_eq_iff)
qed

lemma addFields_eq:
  assumes "\<And>c. c \<in> set cols \<Longrightarrow> ct c = Some (tag (ty c))"
    and "\<And>c. c \<in> set cols \<Longrightarrow> cv c = Some (coerceColumn parse sprintf (ty c) (vs c))"
  shows "addFields ct cv cols fs =
           Inr (fs @ map (\<lambda>c. NewField c (coerceColumn parse sprintf (ty c) (vs c))) cols)"
  using assms
proof (induction cols arbitrary: fs)
  case Nil
  show ?case by simp
next
  case (Cons col cols)
  have ct: "ct col = Some (tag (ty col))"
    and cv: "cv col = Some (coerceColumn parse sprintf (ty col) (vs col))"
    by (simp_all add: Cons.prems)
  have IH: "\<And>fs. addFields ct cv cols fs =
      Inr (fs @ map (\<lambda>c. NewField c (coerceColumn parse sprintf (ty c) (vs c))) cols)"
    by (rule Cons.IH) (simp_all add: Cons.prems)
  show ?case
    by (cases "ty col") (simp_all add: typeOf_def ct cv IH)
qed

lemma convertToDataFrames_eq:
  assumes "results \<noteq> []" and "distinct (rangeKeys (hd results))"
  shows "convertToDataFrames parse sprintf rangeKeys results =
           Inr (builtFrame parse sprintf (rangeKeys (hd results)) results)"
proof -
  obtain first rest where results: "results = first # rest"
    using assms(1) by (cases results) auto
  let ?cols = "rangeKeys first"
  let ?ty = "\<lambda>c. inferType parse (index first c)"
  let ?cv = "\<lambda>c. if c \<in> set ?cols then Some (coerceColumn parse sprintf (?ty c) []) else None"
  let ?ct = "\<lambda>c. if c \<in> set ?cols then Some (tag (?ty c)) else None"
  have det: "detectColumns parse first ?cols (Map.empty, Map.empty) = (?cv, ?ct)"
    by (simp add: detectColumns_eq [where sprintf = sprintf])
  have d: "distinct ?cols" using assms(2) results by simp
  let ?cv' = "\<lambda>c. if c \<in> set ?cols
                 then Some (coerceColumn parse sprintf (?ty c)
                              ([] @ map (\<lambda>result. index result c) results))
                 else ?cv c"
  have fill: "fillRows parse sprintf ?ct ?cols results ?cv = Inr ?cv'"
    by (rule fillRows_eq [OF d]) simp_all
  have add: "addFields ?ct ?cv' ?cols [] =
      Inr ([] @ map (\<lambda>c. NewField c (coerceColumn parse sprintf (?ty c)
                                       ([] @ map (\<lambda>result. index result c) results))) ?cols)"
    by (rule addFields_eq) simp_all
  show ?thesis
    unfolding convertToDataFrames_def results
    using fill add
    by (simp add: det NewFrame_def builtFrame_def results del: fillRows.simps)
qed

lemma Len_coerceColumn: "Len (coerceColumn parse sprintf ty vs) = length vs"
  by (cases ty) simp_all

lemma columnType_coerceColumn: "columnType (coerceColumn parse sprintf ty vs) = ty"
  by (cases ty) simp_all

lemma cells_coerceColumn:
  "cells (coerceColumn parse sprintf ty vs) = map (coerce parse sprintf ty) vs"
  by (cases ty) simp_all

lemma Name_builtFrame: "map Name (Fields (builtFrame parse sprintf columns results)) = columns"
  by (simp add: builtFrame_def NewField_def comp_def)

subsection \<open>The sample rows\<close>

lemma sample_nonempty: "sample_rows \<noteq> []"
  by (simp add: sample_rows_def)

lemma sample_dom: "dom (hd sample_rows) = {''ts'', ''v''}"
  by (auto simp: sample_rows_def)

lemma sample_range_order: "range_order sample_keys (hd sample_rows)"
  by (auto simp: range_order_def sample_keys_def sample_rows_def)

lemma sample_native:
  "go_time_Parse ocientTimestampFormat ''2024-01-15 10:30:00.123456789'' =
     Some \<lparr>year = 2024, month = 1, day = 15, hour = 10, minute = 30, second = 0,
           nsec = 123456789, zoneOffset = 0\<rparr>"
  by code_simp


lemma sample_frame:
  "convertToDataFrames go_time_Parse sample_sprintf sample_keys sample_rows =
     Inr \<lparr>FrameName = ''response'',
          Fields = [\<lparr>Name = ''ts'',
                     Values = Times [\<lparr>year = 2024, month = 1, day = 15, hour = 10, minute = 30,
                                      second = 0, nsec = 123456789, zoneOffset = 0\<rparr>,
                                     zero_time]\<rparr>,
                    \<lparr>Name = ''v'', Values = Float64s [42.5, 0]\<rparr>]\<rparr>"
  by (simp add: convertToDataFrames_def sample_rows_def sample_keys_def NewFrame_def
      NewField_def detectColumn_def index_def fillCell_def typeOf_def parseCell_def
      sample_native Let_def)

lemma decimal_300: "decimal (- 300) = ''-300''"
  by code_simp

section \<open>Properties of the frame builder\<close>

text \<open>
  C1. For every non-empty RowSet, whatever order the keys of the first row are visited in,
  the frame builder returns a frame and no error; the frame has exactly one field per key of
  the first row (the field names are distinct, they are the keys of the first row, and their
  number is the number of those keys), and the vector of every field has as many values as
  the RowSet has rows. Later rows may lack keys or hold values of another dynamic type.
\<close>

theorem frame_shape:
  assumes "results \<noteq> []" and "range_order rangeKeys (hd results)"
  shows "\<exists>frame. convertToDataFrames parse sprintf rangeKeys results = Inr frame \<and>
           distinct (map Name (Fields frame)) \<and>
           set (map Name (Fields frame)) = dom (hd results) \<and>
           length (Fields frame) = card (dom (hd results)) \<and>
           (\<forall>f \<in> set (Fields frame). Len (Values f) = length results)"
proof -
  let ?cols = "rangeKeys (hd results)"
  let ?frame = "builtFrame parse sprintf ?cols results"
  have d: "distinct ?cols" and s: "set ?cols = dom (hd results)"
    using assms(2) by (simp_all add: range_order_def)
  have run: "convertToDataFrames parse sprintf rangeKeys results = Inr ?frame"
    using assms(1) d by (simp add: convertToDataFrames_eq)
  have names: "map Name (Fields ?frame) = ?cols"
    by (rule Name_builtFrame)
  have "length (Fields ?frame) = length ?cols"
    by (simp add: builtFrame_def)
  also have "\<dots> = card (dom (hd results))"
    using d s distinct_card by fastforce
  finally have count: "length (Fields ?frame) = card (dom (hd results))" .
  have lens: "\<forall>f \<in> set (Fields ?frame). Len (Values f) = length results"
    by (auto simp: builtFrame_def NewField_def Len_coerceColumn)
  show ?thesis
    using run names d s count lens by (intro exI [of _ ?frame]) simp
qed

text \<open>
  On the sample rows, whose second row lacks a key and holds a boolean in the timestamp
  column: two fields, \<open>ts\<close> and \<open>v\<close>, of two values each.
\<close>

theorem frame_shape_witness:
  "sample_rows \<noteq> [] \<and> range_order sample_keys (hd sample_rows) \<and>
   (\<exists>frame. convertToDataFrames go_time_Parse sample_sprintf sample_keys sample_rows = Inr frame \<and>
      distinct (map Name (Fields frame)) \<and>
      set (map Name (Fields frame)) = {''ts'', ''v''} \<and>
      length (Fields frame) = 2 \<and>
      (\<forall>f \<in> set (Fields frame). Len (Values f) = 2))"
proof -
  have c: "card (dom (hd sample_rows)) = 2"
    by (simp add: sample_dom)
  have l: "length sample_rows = 2"
    by (simp add: sample_rows_def)
  obtain frame where
      "convertToDataFrames go_time_Parse sample_sprintf sample_keys sample_rows = Inr frame"
      "distinct (map Name (Fields frame))"
      "set (map Name (Fields frame)) = dom (hd sample_rows)"
      "length (Fields frame) = card (dom (hd sample_rows))"
      "\<forall>f \<in> set (Fields frame). Len (Values f) = length sample_rows"
    using frame_shape [OF sample_nonempty sample_range_order, of go_time_Parse sample_sprintf]
    by blast
  then have "convertToDataFrames go_time_Parse sample_sprintf sample_keys sample_rows = Inr frame \<and>
      distinct (map Name (Fields frame)) \<and>
      set (map Name (Fields frame)) = {''ts'', ''v''} \<and>
      length (Fields frame) = 2 \<and>
      (\<forall>f \<in> set (Fields frame). Len (Values f) = 2)"
    using c l sample_dom by metis
  then show ?thesis
    using sample_nonempty sample_range_order by blast
qed



text \<open>
  C3. The type of a column is determined by the value the first row holds for it alone:
  Timestamp for a text that one of the timestamp layouts parses; otherwise Float for a
  number, Boolean for a boolean, and Text for everything else (other text, null, a missing
  key, arrays and objects). Each field of the frame has the type so chosen, for all its
  rows.
\<close>

theorem column_type_from_first_row:
  assumes "results \<noteq> []" and "range_order rangeKeys (hd results)"
  shows "\<exists>frame. convertToDataFrames parse sprintf rangeKeys results = Inr frame \<and>
           map Name (Fields frame) = rangeKeys (hd results) \<and>
           (\<forall>f \<in> set (Fields frame).
              columnType (Values f) = inferType parse (index (hd results) (Name f)))"
proof -
  let ?cols = "rangeKeys (hd results)"
  let ?frame = "builtFrame parse sprintf ?cols results"
  have d: "distinct ?cols"
    using assms(2) by (simp add: range_order_def)
  have run: "convertToDataFrames parse sprintf rangeKeys results = Inr ?frame"
    using assms(1) d by (simp add: convertToDataFrames_eq)
  have types: "\<forall>f \<in> set (Fields ?frame).
      columnType (Values f) = inferType parse (index (hd results) (Name f))"
    by (auto simp: builtFrame_def NewField_def columnType_coerceColumn)
  show ?thesis
    using run types Name_builtFrame [of parse sprintf ?cols results]
    by (intro exI [of _ ?frame]) simp
qed

text \<open>
  On the sample rows the column \<open>ts\<close> is a Timestamp column and \<open>v\<close> a Float
  column, although the second row holds a boolean and nothing there.
\<close>

theorem column_type_from_first_row_witness:
  "sample_rows \<noteq> [] \<and> range_order sample_keys (hd sample_rows) \<and>
   (\<exists>frame. convertToDataFrames go_time_Parse sample_sprintf sample_keys sample_rows = Inr frame \<and>
      map Name (Fields frame) = [''ts'', ''v''] \<and>
      map (\<lambda>f. columnType (Values f)) (Fields frame) = [Timestamp, Float])"
proof -
  have ts: "inferType go_time_Parse (index (hd sample_rows) ''ts'') = Timestamp"
    by (simp add: sample_rows_def index_def inferType_def matchesTimestamp_def
        timestampLayouts_def sample_native [unfolded ocientTimestampFormat_def])
  have v: "inferType go_time_Parse (index (hd sample_rows) ''v'') = Float"
    by (simp add: sample_rows_def index_def inferType_def matchesTimestamp_def)
  obtain frame where run:
      "convertToDataFrames go_time_Parse sample_sprintf sample_keys sample_rows = Inr frame"
    and names: "map Name (Fields frame) = sample_keys (hd sample_rows)"
    and types: "\<forall>f \<in> set (Fields frame).
        columnType (Values f) = inferType go_time_Parse (index (hd sample_rows) (Name f))"
    using column_type_from_first_row [OF sample_nonempty sample_range_order,
        of go_time_Parse sample_sprintf]
    by blast
  from names obtain f1 f2 where fs: "Fields frame = [f1, f2]"
    and n: "Name f1 = ''ts''" "Name f2 = ''v''"
    by (auto simp: sample_keys_def map_eq_Cons_conv)
  have "map (\<lambda>f. columnType (Values f)) (Fields frame) = [Timestamp, Float]"
    using types by (simp add: fs n ts v)
  then show ?thesis
    using run names by (simp add: sample_nonempty sample_range_order sample_keys_def)
qed

text \<open>
  C4. Every cell of every row is coerced to the type of its column and nothing fails. The
  builder returns a frame whose fields are the keys of the first row, in the order they
  were visited, none left out; the type of each field is the one chosen from the first
  row; and each field holds exactly one cell per row, in row order, which is the value the
  row holds for that column coerced to the type of the field: in a Float column a value that
  is not a number becomes 0; in a Text column a value that is not a string is formatted with
  \<^verbatim>\<open>%v\<close>; in a Boolean column a value that is not a boolean becomes false; in a
  Timestamp column a value that is not a string, or that no layout parses, becomes the zero
  instant. No row is dropped and no error is raised.
\<close>

theorem cells_coerced:
  assumes "results \<noteq> []" and "range_order rangeKeys (hd results)"
  shows "\<exists>frame. convertToDataFrames parse sprintf rangeKeys results = Inr frame \<and>
           map Name (Fields frame) = rangeKeys (hd results) \<and>
           set (map Name (Fields frame)) = dom (hd results) \<and>
           (\<forall>f \<in> set (Fields frame).
              columnType (Values f) = inferType parse (index (hd results) (Name f)) \<and>
              length (cells (Values f)) = length results \<and>
              cells (Values f) =
                map (\<lambda>result. coerce parse sprintf (columnType (Values f)) (index result (Name f)))
                  results)"
proof -
  let ?cols = "rangeKeys (hd results)"
  let ?frame = "builtFrame parse sprintf ?cols results"
  have d: "distinct ?cols" and s: "set ?cols = dom (hd results)"
    using assms(2) by (simp_all add: range_order_def)
  have run: "convertToDataFrames parse sprintf rangeKeys results = Inr ?frame"
    using assms(1) d by (simp add: convertToDataFrames_eq)
  have names: "map Name (Fields ?frame) = ?cols"
    by (rule Name_builtFrame)
  have keys: "set (map Name (Fields ?frame)) = dom (hd results)"
    using names s by simp
  have each: "\<forall>f \<in> set (Fields ?frame).
      columnType (Values f) = inferType parse (index (hd results) (Name f)) \<and>
      length (cells (Values f)) = length results \<and>
      cells (Values f) =
        map (\<lambda>result. coerce parse sprintf (columnType (Values f)) (index result (Name f)))
          results"
    by (auto simp: builtFrame_def NewField_def columnType_coerceColumn cells_coerceColumn comp_def)
  show ?thesis
    using run names keys each by (intro exI [of _ ?frame] conjI)
qed

text \<open>
  On the sample rows: the fields are \<open>ts\<close> and \<open>v\<close>; the boolean in the timestamp
  column becomes the zero instant, and the missing number becomes 0.
\<close>

theorem cells_coerced_witness:
  "sample_rows \<noteq> [] \<and> range_order sample_keys (hd sample_rows) \<and>
   (\<exists>frame. convertToDataFrames go_time_Parse sample_sprintf sample_keys sample_rows = Inr frame \<and>
      map Name (Fields frame) = [''ts'', ''v''] \<and>
      (\<forall>f \<in> set (Fields frame).
         cells (Values f) =
           map (\<lambda>result. coerce go_time_Parse sample_sprintf (columnType (Values f))
                            (index result (Name f)))
             sample_rows)) \<and>
   convertToDataFrames go_time_Parse sample_sprintf sample_keys sample_rows =
     Inr \<lparr>FrameName = ''response'',
          Fields = [\<lparr>Name = ''ts'',
                     Values = Times [\<lparr>year = 2024, month = 1, day = 15, hour = 10, minute = 30,
                                      second = 0, nsec = 123456789, zoneOffset = 0\<rparr>,
                                     zero_time]\<rparr>,
                    \<lparr>Name = ''v'', Values = Float64s [42.5, 0]\<rparr>]\<rparr>"
proof -
  obtain frame where
      run: "convertToDataFrames go_time_Parse sample_sprintf sample_keys sample_rows = Inr frame"
    and names: "map Name (Fields frame) = sample_keys (hd sample_rows)"
    and each: "\<forall>f \<in> set (Fields frame).
        cells (Values f) =
          map (\<lambda>result. coerce go_time_Parse sample_sprintf (columnType (Values f))
                           (index result (Name f)))
            sample_rows"
    using cells_coerced [OF sample_nonempty sample_range_order, of go_time_Parse sample_sprintf]
    by blast
  have "map Name (Fields frame) = [''ts'', ''v'']"
    using names by (simp add: sample_keys_def)
  then have "\<exists>frame.
      convertToDataFrames go_time_Parse sample_sprintf sample_keys sample_rows = Inr frame \<and>
      map Name (Fields frame) = [''ts'', ''v''] \<and>
      (\<forall>f \<in> set (Fields frame).
         cells (Values f) =
           map (\<lambda>result. coerce go_time_Parse sample_sprintf (columnType (Values f))
                            (index result (Name f)))
             sample_rows)"
    using run each by (intro exI [of _ frame] conjI)
  then show ?thesis
    using sample_nonempty sample_range_order sample_frame by (intro conjI)
qed

text \<open>
  C5. Given an empty RowSet, the frame builder returns a frame with zero fields and no
  error.
\<close>

theorem convertToDataFrames_empty:
  "convertToDataFrames parse sprintf rangeKeys [] = Inr \<lparr>FrameName = ''response'', Fields = []\<rparr>"
  by (simp add: convertToDataFrames_def NewFrame_def)

section \<open>Properties of the query executor\<close>

text \<open>
  C8. For a decoded response, \<^verbatim>\<open>executeQuery\<close> returns no error exactly when the
  SQL state of the response is \<open>00000\<close>, and then returns the rows of the response. For
  any other SQL state it returns no rows and the status of the response unchanged, and
  \<^verbatim>\<open>query\<close> answers with an error response that carries the reason, the SQL state and
  the vendor code of the remote and no frame: the frame builder is not run.
\<close>

theorem executeQuery_sql_state:
  assumes "remote statement = Decoded response"
  shows "(snd (snd (executeQuery remote statement)) = None \<longleftrightarrow>
            SQLState (Status response) = ''00000'') \<and>
         (SQLState (Status response) = ''00000'' \<longrightarrow>
            executeQuery remote statement = (Data response, Some (Status response), None)) \<and>
         (SQLState (Status response) \<noteq> ''00000'' \<longrightarrow>
            fst (executeQuery remote statement) = [] \<and>
            fst (snd (executeQuery remote statement)) = Some (Status response) \<and>
            (statement \<noteq> [] \<longrightarrow>
               query parse sprintf rangeKeys remote (Inr \<lparr>QueryText = statement\<rparr>) =
                 Inr \<lparr>Frames = [],
                      Error = Some (''Query failed: '' @ Reason (Status response) @
                                    '' (SQL state: '' @ SQLState (Status response) @
                                    '', vendor code: '' @
                                    decimal (VendorCode (Status response)) @ '')''),
                      ErrorStatus = Some StatusInternal\<rparr>))"
  using assms by (simp add: executeQuery_def query_def ErrDataResponse_def)

theorem executeQuery_sql_state_witness:
  "failing_remote ''SELEC 1'' =
     Decoded \<lparr>QueryID = ''q-1'',
              Status = \<lparr>Reason = ''syntax error'', SQLState = ''42601'', VendorCode = - 300\<rparr>,
              Data = [[''x'' \<mapsto> JFloat 1]]\<rparr> \<and>
   snd (snd (executeQuery failing_remote ''SELEC 1'')) \<noteq> None \<and>
   fst (executeQuery failing_remote ''SELEC 1'') = [] \<and>
   fst (snd (executeQuery failing_remote ''SELEC 1'')) =
     Some \<lparr>Reason = ''syntax error'', SQLState = ''42601'', VendorCode = - 300\<rparr> \<and>
   query go_time_Parse sample_sprintf sample_keys failing_remote (Inr \<lparr>QueryText = ''SELEC 1''\<rparr>) =
     Inr \<lparr>Frames = [],
          Error = Some ''Query failed: syntax error (SQL state: 42601, vendor code: -300)'',
          ErrorStatus = Some StatusInternal\<rparr>"
proof -
  have r: "failing_remote ''SELEC 1'' =
     Decoded \<lparr>QueryID = ''q-1'',
              Status = \<lparr>Reason = ''syntax error'', SQLState = ''42601'', VendorCode = - 300\<rparr>,
              Data = [[''x'' \<mapsto> JFloat 1]]\<rparr>"
    by (simp add: failing_remote_def)
  show ?thesis
    using executeQuery_sql_state [where remote = failing_remote and statement = "''SELEC 1''"
        and parse = go_time_Parse and sprintf = sample_sprintf and rangeKeys = sample_keys, OF r]
    by (simp add: r decimal_300)
qed

section \<open>Properties of distinct-value browsing\<close>

text \<open>
  The two functions in terms of the first field of each answer.
\<close>

lemma getDistinctValueCount_eq:
  assumes "schema \<noteq> []" "table \<noteq> []" "column \<noteq> []"
  shows "getDistinctValueCount backend schema table column =
           ((case firstField (backend (countRequest schema table column)) of
               Some f \<Rightarrow> (case get0 (field_values f) of JSNumber n \<Rightarrow> n | _ \<Rightarrow> 0)
             | None \<Rightarrow> 0),
            [countRequest schema table column])"
  using assms
  by (simp add: getDistinctValueCount_def countRequest_def firstField_def Let_def
      split: query_outcome.splits option.splits list.splits js_value.splits)

lemma getDistinctColumnValues_eq:
  assumes "schema \<noteq> []" "table \<noteq> []" "column \<noteq> []"
  shows "getDistinctColumnValues backend schema table column opts =
           (let total = fst (getDistinctValueCount backend schema table column);
                offset = number_or opts opt_offset 0
            in (case firstField (backend (valueRequest schema table column opts)) of
                  Some f \<Rightarrow>
                    \<lparr>values = map js_String (field_values f), totalCount = total,
                     hasMore = (offset + int (length (field_values f)) < total)\<rparr>
                | None \<Rightarrow> \<lparr>values = [], totalCount = total, hasMore = False\<rparr>),
            [countRequest schema table column, valueRequest schema table column opts])"
  using assms
  by (simp add: getDistinctColumnValues_def getDistinctValueCount_eq valueRequest_def
      firstField_def Let_def
      split: query_outcome.splits option.splits list.splits)

lemma totalCount_eq:
  "totalCount (fst (getDistinctColumnValues backend schema table column opts)) =
     fst (getDistinctValueCount backend schema table column)"
proof (cases "schema = [] \<or> table = [] \<or> column = []")
  case True
  then show ?thesis
    by (auto simp: getDistinctColumnValues_def getDistinctValueCount_def)
next
  case False
  then show ?thesis
    by (simp add: getDistinctColumnValues_eq Let_def split: option.splits)
qed

subsection \<open>The sample backends\<close>

lemma decimal_0: "decimal 0 = ''0''" by code_simp
lemma decimal_100: "decimal 100 = ''100''" by code_simp

lemmas request_simps =
  countRequest_def valueRequest_def countQueryText_def valueQueryText_def page_opts_def
  number_or_def string_or_empty_def newline_indent_def decimal_0 decimal_100 Let_def

lemma table150_count: "table150 (countRequest ''s'' ''t'' ''c'') = Resolves (Some [numberFrame 150])"
  by (simp add: table150_def)

lemma table150_page0:
  "table150 (valueRequest ''s'' ''t'' ''c'' (page_opts 100 0 [])) =
     Resolves (Some [columnFrame ''c'' (map (\<lambda>i. JSNumber (int i)) [0..<100])])"
  by (simp add: table150_def request_simps)

lemma table150_page1:
  "table150 (valueRequest ''s'' ''t'' ''c'' (page_opts 100 100 [])) =
     Resolves (Some [columnFrame ''c'' (map (\<lambda>i. JSNumber (int i)) [100..<150])])"
  by (simp add: table150_def request_simps)

lemma table150_zzz:
  "table150 (valueRequest ''s'' ''t'' ''c'' (page_opts 100 0 ''zzz'')) = Resolves (Some [emptyFrame])"
  by (simp add: table150_def request_simps)

lemma table150_total: "fst (getDistinctValueCount table150 ''s'' ''t'' ''c'') = 150"
  by (simp add: getDistinctValueCount_eq table150_count firstField_def numberFrame_def get0_def)

lemma nonempty_s: "''s'' \<noteq> []" "''t'' \<noteq> []" "''c'' \<noteq> []"
  by simp_all

lemma count_down_count: "countUnavailable (count_down (countRequest ''s'' ''t'' ''c''))"
  by (simp add: countUnavailable_def count_down_def countRequest_def firstField_def)

text \<open>
  C6, as stated: every browsing request that succeeds has
  \<open>hasMore = (offset + length values < totalCount)\<close>. This fails when the value query
  succeeds with no row: the backend then sends a frame without fields, the page is built by
  the final \<^verbatim>\<open>return\<close> with \<open>hasMore = false\<close>, and the formula gives true whenever
  the offset is below the total count. Here both queries of the request resolve, the total
  count is 150, and a search for \<open>zzz\<close> at offset 0 finds nothing.
\<close>

theorem hasMore_formula_counterexample:
  "table150 (countRequest ''s'' ''t'' ''c'') = Resolves (Some [numberFrame 150]) \<and>
   table150 (valueRequest ''s'' ''t'' ''c'' (page_opts 100 0 ''zzz'')) = Resolves (Some [emptyFrame]) \<and>
   getDistinctColumnValues table150 ''s'' ''t'' ''c'' (page_opts 100 0 ''zzz'') =
     (\<lparr>values = [], totalCount = 150, hasMore = False\<rparr>,
      [countRequest ''s'' ''t'' ''c'', valueRequest ''s'' ''t'' ''c'' (page_opts 100 0 ''zzz'')]) \<and>
   hasMore (fst (getDistinctColumnValues table150 ''s'' ''t'' ''c'' (page_opts 100 0 ''zzz''))) \<noteq>
     (0 + int (length (values (fst (getDistinctColumnValues table150 ''s'' ''t'' ''c''
                                      (page_opts 100 0 ''zzz''))))) <
      totalCount (fst (getDistinctColumnValues table150 ''s'' ''t'' ''c'' (page_opts 100 0 ''zzz''))))"
  by (simp add: getDistinctColumnValues_eq table150_count table150_zzz table150_total
      firstField_def emptyFrame_def)

text \<open>
  C6, amended. For a browsing request with schema, table and column given: when the value
  query resolves with a first frame that has a field, the values of the page are the values
  of that field as strings and \<open>hasMore = (offset + length values < totalCount)\<close>; in
  particular, with a total count of 150, an answer of 100 values at offset 0 gives 100
  values and \<open>hasMore\<close> true, and an answer of 50 values at offset 100 gives 50 values and
  \<open>hasMore\<close> false. When the value query throws, or resolves without a frame or with a
  first frame without fields, the page has no values and \<open>hasMore\<close> is false.
\<close>

theorem hasMore_of_page:
  fixes backend :: "request \<Rightarrow> query_outcome" and schema table column :: string
    and opts :: "options option" and p :: page and offset :: int
  assumes "schema \<noteq> []" "table \<noteq> []" "column \<noteq> []"
  defines "p \<equiv> fst (getDistinctColumnValues backend schema table column opts)"
    and "offset \<equiv> number_or opts opt_offset 0"
  shows "(\<forall>f. firstField (backend (valueRequest schema table column opts)) = Some f \<longrightarrow>
            values p = map js_String (field_values f) \<and>
            hasMore p = (offset + int (length (values p)) < totalCount p) \<and>
            (totalCount p = 150 \<and> offset = 0 \<and> length (field_values f) = 100 \<longrightarrow>
               length (values p) = 100 \<and> hasMore p) \<and>
            (totalCount p = 150 \<and> offset = 100 \<and> length (field_values f) = 50 \<longrightarrow>
               length (values p) = 50 \<and> \<not> hasMore p)) \<and>
         (firstField (backend (valueRequest schema table column opts)) = None \<longrightarrow>
            values p = [] \<and> \<not> hasMore p)"
  using assms(1-3) unfolding p_def offset_def
  by (simp add: getDistinctColumnValues_eq Let_def)

text \<open>
  On the table of 150 values: the first page, the second page, and the search that finds
  nothing.
\<close>

theorem hasMore_of_page_witness:
  "length (values (fst (getDistinctColumnValues table150 ''s'' ''t'' ''c'' (page_opts 100 0 [])))) = 100 \<and>
   totalCount (fst (getDistinctColumnValues table150 ''s'' ''t'' ''c'' (page_opts 100 0 []))) = 150 \<and>
   hasMore (fst (getDistinctColumnValues table150 ''s'' ''t'' ''c'' (page_opts 100 0 []))) \<and>
   length (values (fst (getDistinctColumnValues table150 ''s'' ''t'' ''c'' (page_opts 100 100 [])))) = 50 \<and>
   totalCount (fst (getDistinctColumnValues table150 ''s'' ''t'' ''c'' (page_opts 100 100 []))) = 150 \<and>
   \<not> hasMore (fst (getDistinctColumnValues table150 ''s'' ''t'' ''c'' (page_opts 100 100 []))) \<and>
   values (fst (getDistinctColumnValues table150 ''s'' ''t'' ''c'' (page_opts 100 0 ''zzz''))) = [] \<and>
   \<not> hasMore (fst (getDistinctColumnValues table150 ''s'' ''t'' ''c'' (page_opts 100 0 ''zzz'')))"
proof -
  let ?f0 = "\<lparr>field_name = ''c'', field_values = map (\<lambda>i. JSNumber (int i)) [0..<100]\<rparr>"
  let ?f1 = "\<lparr>field_name = ''c'', field_values = map (\<lambda>i. JSNumber (int i)) [100..<150]\<rparr>"
  have f0: "firstField (table150 (valueRequest ''s'' ''t'' ''c'' (page_opts 100 0 []))) = Some ?f0"
    by (simp add: table150_page0 firstField_def columnFrame_def)
  have f1: "firstField (table150 (valueRequest ''s'' ''t'' ''c'' (page_opts 100 100 []))) = Some ?f1"
    by (simp add: table150_page1 firstField_def columnFrame_def)
  have fz: "firstField (table150 (valueRequest ''s'' ''t'' ''c'' (page_opts 100 0 ''zzz''))) = None"
    by (simp add: table150_zzz firstField_def emptyFrame_def)
  have total: "\<And>opts. totalCount (fst (getDistinctColumnValues table150 ''s'' ''t'' ''c'' opts)) = 150"
    by (simp add: totalCount_eq table150_total)
  have o0: "number_or (page_opts 100 0 []) opt_offset 0 = 0"
    and o1: "number_or (page_opts 100 100 []) opt_offset 0 = 100"
    by (simp_all add: number_or_def page_opts_def)
  show ?thesis
    using hasMore_of_page [OF nonempty_s, of table150 "page_opts 100 0 []"]
      hasMore_of_page [OF nonempty_s, of table150 "page_opts 100 100 []"]
      hasMore_of_page [OF nonempty_s, of table150 "page_opts 100 0 ''zzz''"]
    by (simp add: f0 f1 fz total o0 o1)
qed

text \<open>
  C7. A browsing request with schema, table and column given issues the count query and
  then the value query. The text of the count query holds no search filter; the text of
  the value query holds the filter, a case-insensitive \<^verbatim>\<open>LIKE\<close> on the column cast to
  text, exactly when the search pattern is not empty. The total count of the page is the
  result of the count helper, so it is the same for every search pattern and every page.
\<close>

theorem search_filter_placement:
  assumes "schema \<noteq> []" "table \<noteq> []" "column \<noteq> []"
  shows "snd (getDistinctColumnValues backend schema table column opts) =
           [\<lparr>refId = ''distinct_count'',
             queryText = ''SELECT COUNT(DISTINCT '' @ column @ '') AS value_count FROM '' @
                         schema @ ''.'' @ table @ '' WHERE '' @ column @ '' IS NOT NULL''\<rparr>,
            \<lparr>refId = ''distinct_values'',
             queryText = ''SELECT DISTINCT '' @ column @ '' '' @ newline_indent 21 @
                         ''FROM '' @ schema @ ''.'' @ table @ '' '' @ newline_indent 21 @
                         ''WHERE '' @ column @ '' IS NOT NULL'' @
                         (if string_or_empty opts opt_searchPattern = [] then []
                          else '' AND LOWER(CAST('' @ column @ '' AS VARCHAR)) LIKE LOWER('' @
                               [CHR 0x27] @ ''%'' @ string_or_empty opts opt_searchPattern @
                               ''%'' @ [CHR 0x27] @ '')'') @
                         '' ORDER BY '' @ column @ '' ASC '' @ newline_indent 18 @
                         ''LIMIT '' @ decimal (number_or opts opt_limit 100) @
                         '' OFFSET '' @ decimal (number_or opts opt_offset 0)\<rparr>] \<and>
         totalCount (fst (getDistinctColumnValues backend schema table column opts)) =
           fst (getDistinctValueCount backend schema table column) \<and>
         snd (getDistinctValueCount backend schema table column) =
           [\<lparr>refId = ''distinct_count'',
             queryText = ''SELECT COUNT(DISTINCT '' @ column @ '') AS value_count FROM '' @
                         schema @ ''.'' @ table @ '' WHERE '' @ column @ '' IS NOT NULL''\<rparr>] \<and>
         totalCount (fst (getDistinctColumnValues backend schema table column opts)) =
           totalCount (fst (getDistinctColumnValues backend schema table column opts'))"
proof -
  have issued: "snd (getDistinctColumnValues backend schema table column opts) =
      [countRequest schema table column, valueRequest schema table column opts]"
    using assms by (simp add: getDistinctColumnValues_eq)
  have counted: "snd (getDistinctValueCount backend schema table column) =
      [countRequest schema table column]"
    using assms by (simp add: getDistinctValueCount_eq)
  have texts: "countRequest schema table column =
      \<lparr>refId = ''distinct_count'',
       queryText = ''SELECT COUNT(DISTINCT '' @ column @ '') AS value_count FROM '' @
                   schema @ ''.'' @ table @ '' WHERE '' @ column @ '' IS NOT NULL''\<rparr>"
    by (simp add: countRequest_def countQueryText_def)
  have textv: "valueRequest schema table column opts =
      \<lparr>refId = ''distinct_values'',
       queryText = ''SELECT DISTINCT '' @ column @ '' '' @ newline_indent 21 @
                   ''FROM '' @ schema @ ''.'' @ table @ '' '' @ newline_indent 21 @
                   ''WHERE '' @ column @ '' IS NOT NULL'' @
                   (if string_or_empty opts opt_searchPattern = [] then []
                    else '' AND LOWER(CAST('' @ column @ '' AS VARCHAR)) LIKE LOWER('' @
                         [CHR 0x27] @ ''%'' @ string_or_empty opts opt_searchPattern @
                         ''%'' @ [CHR 0x27] @ '')'') @
                   '' ORDER BY '' @ column @ '' ASC '' @ newline_indent 18 @
                   ''LIMIT '' @ decimal (number_or opts opt_limit 100) @
                   '' OFFSET '' @ decimal (number_or opts opt_offset 0)\<rparr>"
    by (simp add: valueRequest_def valueQueryText_def Let_def)
  show ?thesis
    unfolding issued counted totalCount_eq texts textv by simp
qed

theorem search_filter_placement_witness:
  "snd (getDistinctColumnValues table150 ''s'' ''t'' ''c'' (page_opts 100 0 ''zzz'')) =
     [\<lparr>refId = ''distinct_count'',
       queryText = ''SELECT COUNT(DISTINCT c) AS value_count FROM s.t WHERE c IS NOT NULL''\<rparr>,
      \<lparr>refId = ''distinct_values'',
       queryText = ''SELECT DISTINCT c '' @ newline_indent 21 @ ''FROM s.t '' @ newline_indent 21 @
                   ''WHERE c IS NOT NULL AND LOWER(CAST(c AS VARCHAR)) LIKE LOWER('' @
                   [CHR 0x27] @ ''%zzz%'' @ [CHR 0x27] @ '') ORDER BY c ASC '' @
                   newline_indent 18 @ ''LIMIT 100 OFFSET 0''\<rparr>] \<and>
   totalCount (fst (getDistinctColumnValues table150 ''s'' ''t'' ''c'' (page_opts 100 0 ''zzz''))) = 150 \<and>
   totalCount (fst (getDistinctColumnValues table150 ''s'' ''t'' ''c'' (page_opts 100 0 []))) = 150"
  using search_filter_placement [OF nonempty_s, of table150 "page_opts 100 0 ''zzz''"
      "page_opts 100 0 []"]
  by (simp add: table150_total string_or_empty_def number_or_def page_opts_def
      decimal_0 decimal_100)

text \<open>
  C10, as stated: when the count query fails, the page has total count 0 and \<open>hasMore\<close>
  false. The offset of the options is used as it is given, and with total count 0 the page
  has \<open>hasMore = (offset + length values < 0)\<close>. Here the count query throws, the value
  query answers two values, and the offset is -3: the page has \<open>hasMore\<close> true.
\<close>

theorem count_failure_hasMore_counterexample:
  "countUnavailable (count_down (countRequest ''s'' ''t'' ''c'')) \<and>
   number_or (page_opts 100 (- 3) []) opt_offset 0 = - 3 \<and>
   getDistinctColumnValues count_down ''s'' ''t'' ''c'' (page_opts 100 (- 3) []) =
     (\<lparr>values = [''a'', ''true''], totalCount = 0, hasMore = True\<rparr>,
      [countRequest ''s'' ''t'' ''c'', valueRequest ''s'' ''t'' ''c'' (page_opts 100 (- 3) [])]) \<and>
   hasMore (fst (getDistinctColumnValues count_down ''s'' ''t'' ''c'' (page_opts 100 (- 3) [])))"
proof -
  let ?f = "\<lparr>field_name = ''c'', field_values = [JSString ''a'', JSBoolean True]\<rparr>"
  have f: "firstField (count_down (valueRequest ''s'' ''t'' ''c'' (page_opts 100 (- 3) []))) =
      Some ?f"
    by (simp add: count_down_def valueRequest_def firstField_def columnFrame_def)
  have c: "firstField (count_down (countRequest ''s'' ''t'' ''c'')) = None"
    by (simp add: count_down_def countRequest_def firstField_def)
  have o: "number_or (page_opts 100 (- 3) []) opt_offset 0 = - 3"
    by (simp add: number_or_def page_opts_def)
  have run: "getDistinctColumnValues count_down ''s'' ''t'' ''c'' (page_opts 100 (- 3) []) =
      (\<lparr>values = [''a'', ''true''], totalCount = 0, hasMore = True\<rparr>,
       [countRequest ''s'' ''t'' ''c'', valueRequest ''s'' ''t'' ''c'' (page_opts 100 (- 3) [])])"
    by (simp add: getDistinctColumnValues_eq getDistinctValueCount_eq f c o)
  show ?thesis
    using count_down_count o run by simp
qed

text \<open>
  C10, amended. When schema, table or column is empty, the browsing call returns the page
  without values, with total count 0 and \<open>hasMore\<close> false, and issues no query. Otherwise,
  when the count query throws, or returns no first field, or a first cell that is not a
  number, the count helper returns 0 without raising; the browsing call still issues the
  value query after the count query; the page has total count 0; its values are those the
  value query returned, and then \<open>hasMore = (offset + length values < 0)\<close>, while without
  values from the value query \<open>hasMore\<close> is false; so \<open>hasMore\<close> is false for every
  offset that is not negative.
\<close>

theorem count_failure_gives_zero:
  fixes backend :: "request \<Rightarrow> query_outcome" and schema table column :: string
    and opts :: "options option" and p :: page and issued :: "request list"
  defines "p \<equiv> fst (getDistinctColumnValues backend schema table column opts)"
    and "issued \<equiv> snd (getDistinctColumnValues backend schema table column opts)"
  shows "(schema = [] \<or> table = [] \<or> column = [] \<longrightarrow>
            p = \<lparr>values = [], totalCount = 0, hasMore = False\<rparr> \<and> issued = []) \<and>
         (schema \<noteq> [] \<and> table \<noteq> [] \<and> column \<noteq> [] \<and>
          countUnavailable (backend (countRequest schema table column)) \<longrightarrow>
            getDistinctValueCount backend schema table column =
              (0, [countRequest schema table column]) \<and>
            issued = [countRequest schema table column, valueRequest schema table column opts] \<and>
            totalCount p = 0 \<and>
            (0 \<le> number_or opts opt_offset 0 \<longrightarrow> \<not> hasMore p) \<and>
            (\<forall>f. firstField (backend (valueRequest schema table column opts)) = Some f \<longrightarrow>
                 values p = map js_String (field_values f) \<and>
                 hasMore p = (number_or opts opt_offset 0 + int (length (values p)) < 0)) \<and>
            (firstField (backend (valueRequest schema table column opts)) = None \<longrightarrow>
               values p = [] \<and> \<not> hasMore p))"
proof -
  have early: "schema = [] \<or> table = [] \<or> column = [] \<longrightarrow>
      p = \<lparr>values = [], totalCount = 0, hasMore = False\<rparr> \<and> issued = []"
    unfolding p_def issued_def by (auto simp: getDistinctColumnValues_def)
  have late: "schema \<noteq> [] \<and> table \<noteq> [] \<and> column \<noteq> [] \<and>
      countUnavailable (backend (countRequest schema table column)) \<longrightarrow>
        getDistinctValueCount backend schema table column =
          (0, [countRequest schema table column]) \<and>
        issued = [countRequest schema table column, valueRequest schema table column opts] \<and>
        totalCount p = 0 \<and>
        (0 \<le> number_or opts opt_offset 0 \<longrightarrow> \<not> hasMore p) \<and>
        (\<forall>f. firstField (backend (valueRequest schema table column opts)) = Some f \<longrightarrow>
             values p = map js_String (field_values f) \<and>
             hasMore p = (number_or opts opt_offset 0 + int (length (values p)) < 0)) \<and>
        (firstField (backend (valueRequest schema table column opts)) = None \<longrightarrow>
           values p = [] \<and> \<not> hasMore p)"
  proof (intro impI, elim conjE)
    assume ne: "schema \<noteq> []" "table \<noteq> []" "column \<noteq> []"
      and un: "countUnavailable (backend (countRequest schema table column))"
    have zero: "getDistinctValueCount backend schema table column =
        (0, [countRequest schema table column])"
      using un
      by (simp add: getDistinctValueCount_eq [OF ne] countUnavailable_def isNumber_def
          split: option.splits js_value.splits)
    show "getDistinctValueCount backend schema table column =
          (0, [countRequest schema table column]) \<and>
        issued = [countRequest schema table column, valueRequest schema table column opts] \<and>
        totalCount p = 0 \<and>
        (0 \<le> number_or opts opt_offset 0 \<longrightarrow> \<not> hasMore p) \<and>
        (\<forall>f. firstField (backend (valueRequest schema table column opts)) = Some f \<longrightarrow>
             values p = map js_String (field_values f) \<and>
             hasMore p = (number_or opts opt_offset 0 + int (length (values p)) < 0)) \<and>
        (firstField (backend (valueRequest schema table column opts)) = None \<longrightarrow>
           values p = [] \<and> \<not> hasMore p)"
      unfolding p_def issued_def
      by (simp add: getDistinctColumnValues_eq [OF ne] zero Let_def split: option.splits)
  qed
  show ?thesis using early late by (rule conjI)
qed

text \<open>
  With a remote whose count query throws and whose value query answers two values, at
  offset 0 the page has these two values, total count 0 and \<open>hasMore\<close> false.
\<close>

theorem count_failure_gives_zero_witness:
  "countUnavailable (count_down (countRequest ''s'' ''t'' ''c'')) \<and>
   getDistinctValueCount count_down ''s'' ''t'' ''c'' = (0, [countRequest ''s'' ''t'' ''c'']) \<and>
   getDistinctColumnValues count_down ''s'' ''t'' ''c'' (page_opts 100 0 []) =
     (\<lparr>values = [''a'', ''true''], totalCount = 0, hasMore = False\<rparr>,
      [countRequest ''s'' ''t'' ''c'', valueRequest ''s'' ''t'' ''c'' (page_opts 100 0 [])]) \<and>
   getDistinctColumnValues count_down [] ''t'' ''c'' (page_opts 100 0 []) =
     (\<lparr>values = [], totalCount = 0, hasMore = False\<rparr>, [])"
proof -
  let ?f = "\<lparr>field_name = ''c'', field_values = [JSString ''a'', JSBoolean True]\<rparr>"
  have f: "firstField (count_down (valueRequest ''s'' ''t'' ''c'' (page_opts 100 0 []))) = Some ?f"
    by (simp add: count_down_def valueRequest_def firstField_def columnFrame_def)
  have o: "number_or (page_opts 100 0 []) opt_offset 0 = 0"
    by (simp add: number_or_def page_opts_def)
  have "fst (getDistinctColumnValues count_down ''s'' ''t'' ''c'' (page_opts 100 0 [])) =
      \<lparr>values = [''a'', ''true''], totalCount = 0, hasMore = False\<rparr>"
    using count_failure_gives_zero [of "''s''" "''t''" "''c''" count_down "page_opts 100 0 []"]
      count_down_count f o
    by (cases "fst (getDistinctColumnValues count_down ''s'' ''t'' ''c'' (page_opts 100 0 []))")
      simp
  then show ?thesis
    using count_failure_gives_zero [of "''s''" "''t''" "''c''" count_down "page_opts 100 0 []"]
      count_failure_gives_zero [of "[]" "''t''" "''c''" count_down "page_opts 100 0 []"]
      count_down_count f
    by (simp add: prod_eq_iff)
qed

section \<open>Properties of the query builder\<close>

text \<open>
  C9. With schema and table given, \<^verbatim>\<open>buildQuery\<close> concatenates
  \<^verbatim>\<open>SELECT\<close>, the selected columns joined by a comma and a space or \<^verbatim>\<open>*\<close> when
  none is selected, \<^verbatim>\<open>FROM schema.table\<close>, and, when there is a clause or a time-series
  column, \<^verbatim>\<open>WHERE\<close> and the clauses joined by \<^verbatim>\<open>AND\<close>: each clause as column,
  operator and quoted value, and last, for a time-series column, the two time-range bounds
  and \<^verbatim>\<open>ORDER BY\<close> that column ascending. Schema \<open>s\<close>, table \<open>t\<close>, no selected
  column, the clause \<open>x = 5\<close> and no time-series column give
  \<^verbatim>\<open>SELECT * FROM s.t WHERE x = '5'\<close>.
\<close>

theorem buildQuery_text:
  assumes "schema \<noteq> []" "table \<noteq> []"
  shows "buildQuery (Some schema) (Some table) selectedColumns whereClauses timeseriesColumn =
           Some (''SELECT '' @
                 (if selectedColumns = [] then ''*''
                  else join '', '' (map column_name selectedColumns)) @
                 '' FROM '' @ schema @ ''.'' @ table @
                 (if whereClauses = [] \<and> \<not> truthy timeseriesColumn then []
                  else '' WHERE '' @
                       join '' AND ''
                         (map renderClause whereClauses @
                          (case timeseriesColumn of
                             None \<Rightarrow> []
                           | Some ts \<Rightarrow> if ts = [] then [] else [timeFilter ts])))) \<and>
         buildQuery (Some ''s'') (Some ''t'') []
             [\<lparr>clause_column = ''x'', clause_operator = ''='', clause_value = ''5''\<rparr>] None =
           Some (''SELECT * FROM s.t WHERE x = '' @ [CHR 0x27] @ ''5'' @ [CHR 0x27])"
proof -
  have render: "renderClause =
      (\<lambda>clause. clause_column clause @ '' '' @ clause_operator clause @ '' '' @
                 [CHR 0x27] @ clause_value clause @ [CHR 0x27])"
    by (rule ext) (simp add: renderClause_def)
  show ?thesis
    unfolding render timeFilter_def
    using assms
    by (auto simp: buildQuery_def truthy_def Let_def split: option.splits)
qed

theorem buildQuery_text_witness:
  "buildQuery (Some ''s'') (Some ''t'')
       [\<lparr>column_name = ''a'', isTimeseriesColumn = None\<rparr>,
        \<lparr>column_name = ''ts'', isTimeseriesColumn = Some True\<rparr>]
       [\<lparr>clause_column = ''x'', clause_operator = ''='', clause_value = ''5''\<rparr>,
        \<lparr>clause_column = ''y'', clause_operator = ''LIKE'', clause_value = ''b%''\<rparr>]
       (Some ''ts'') =
     Some (''SELECT a, ts FROM s.t WHERE x = '' @ [CHR 0x27] @ ''5'' @ [CHR 0x27] @
           '' AND y LIKE '' @ [CHR 0x27] @ ''b%'' @ [CHR 0x27] @
           '' AND ts >= $__timeFrom() AND ts <= $__timeTo() ORDER BY ts ASC'') \<and>
   buildQuery (Some ''s'') (Some ''t'') []
       [\<lparr>clause_column = ''x'', clause_operator = ''='', clause_value = ''5''\<rparr>] None =
     Some (''SELECT * FROM s.t WHERE x = '' @ [CHR 0x27] @ ''5'' @ [CHR 0x27])"
  using buildQuery_text [of "''s''" "''t''"
      "[\<lparr>column_name = ''a'', isTimeseriesColumn = None\<rparr>,
        \<lparr>column_name = ''ts'', isTimeseriesColumn = Some True\<rparr>]"
      "[\<lparr>clause_column = ''x'', clause_operator = ''='', clause_value = ''5''\<rparr>,
        \<lparr>clause_column = ''y'', clause_operator = ''LIKE'', clause_value = ''b%''\<rparr>]"
      "Some ''ts''"]
  by (simp add: truthy_def renderClause_def timeFilter_def)

end
